theory Spec2Isabelle
  imports Main "HOL-Library.Word"
begin

unbundle bit_operations_syntax

section \<open>JavaScript numbers, strings and arrays as the recorder uses them\<close>

text \<open>
  The recorder computes with JavaScript numbers. Every number it meets is an integer
  (a pixel count, an index, a bit mask), the result \<open>NaN\<close> of a failed \<open>parseInt\<close> or of
  arithmetic on \<open>undefined\<close>, or the \<open>Infinity\<close> that \<open>Math.min()\<close> returns for no
  arguments. Integers are carried exactly; this agrees with the doubles of the runtime as
  long as every value stays below \<open>2^53\<close> in magnitude, which is the case for screen
  resolutions. Strings are byte strings; only ASCII white space is recognised.
\<close>

datatype number = NaN | Infinity | NegInfinity | Fin int

fun js_neg :: "number \<Rightarrow> number" where
  "js_neg NaN = NaN"
| "js_neg Infinity = NegInfinity"
| "js_neg NegInfinity = Infinity"
| "js_neg (Fin a) = Fin (- a)"

fun js_add :: "number \<Rightarrow> number \<Rightarrow> number" where
  "js_add NaN _ = NaN"
| "js_add _ NaN = NaN"
| "js_add Infinity NegInfinity = NaN"
| "js_add NegInfinity Infinity = NaN"
| "js_add Infinity _ = Infinity"
| "js_add _ Infinity = Infinity"
| "js_add NegInfinity _ = NegInfinity"
| "js_add _ NegInfinity = NegInfinity"
| "js_add (Fin a) (Fin b) = Fin (a + b)"

definition js_sub :: "number \<Rightarrow> number \<Rightarrow> number" where
  "js_sub a b = js_add a (js_neg b)"

text \<open>The sign of a product with an infinite factor; \<open>0 * Infinity\<close> is \<open>NaN\<close>.\<close>

definition signed_infinity :: "int \<Rightarrow> number" where
  "signed_infinity s = (if s = 0 then NaN else if 0 < s then Infinity else NegInfinity)"

fun js_mul :: "number \<Rightarrow> number \<Rightarrow> number" where
  "js_mul NaN _ = NaN"
| "js_mul _ NaN = NaN"
| "js_mul (Fin a) (Fin b) = Fin (a * b)"
| "js_mul Infinity (Fin b) = signed_infinity b"
| "js_mul NegInfinity (Fin b) = signed_infinity (- b)"
| "js_mul (Fin a) Infinity = signed_infinity a"
| "js_mul (Fin a) NegInfinity = signed_infinity (- a)"
| "js_mul Infinity Infinity = Infinity"
| "js_mul NegInfinity NegInfinity = Infinity"
| "js_mul Infinity NegInfinity = NegInfinity"
| "js_mul NegInfinity Infinity = NegInfinity"

fun Math_abs :: "number \<Rightarrow> number" where
  "Math_abs NaN = NaN"
| "Math_abs Infinity = Infinity"
| "Math_abs NegInfinity = Infinity"
| "Math_abs (Fin a) = Fin \<bar>a\<bar>"

text \<open>\<open>Math.min\<close>: \<open>NaN\<close> as soon as one argument is \<open>NaN\<close>, \<open>Infinity\<close> for no argument.\<close>

fun min2 :: "number \<Rightarrow> number \<Rightarrow> number" where
  "min2 NaN _ = NaN"
| "min2 _ NaN = NaN"
| "min2 NegInfinity _ = NegInfinity"
| "min2 _ NegInfinity = NegInfinity"
| "min2 Infinity b = b"
| "min2 a Infinity = a"
| "min2 (Fin a) (Fin b) = Fin (min a b)"

fun Math_min :: "number list \<Rightarrow> number" where
  "Math_min [] = Infinity"
| "Math_min (x # xs) = min2 x (Math_min xs)"

text \<open>Strict equality \<open>===\<close> on numbers: \<open>NaN\<close> equals nothing, itself included.\<close>

definition strict_eq :: "number \<Rightarrow> number \<Rightarrow> bool" where
  "strict_eq a b = (a \<noteq> NaN \<and> a = b)"

text \<open>\<open>Array.prototype.indexOf\<close>: the first index holding a strictly equal element, or \<open>-1\<close>.\<close>

fun indexOf_from :: "int \<Rightarrow> number list \<Rightarrow> number \<Rightarrow> int" where
  "indexOf_from i [] x = - 1"
| "indexOf_from i (y # ys) x = (if strict_eq y x then i else indexOf_from (i + 1) ys x)"

definition indexOf :: "number list \<Rightarrow> number \<Rightarrow> int" where
  "indexOf xs x = indexOf_from 0 xs x"

text \<open>Reading \<open>xs[i]\<close>: \<open>undefined\<close> (here \<open>None\<close>) outside the array, also for \<open>i = -1\<close>.\<close>

definition at_index :: "'a list \<Rightarrow> int \<Rightarrow> 'a option" where
  "at_index xs i = (if 0 \<le> i \<and> i < int (length xs) then Some (xs ! nat i) else None)"

text \<open>\<open>String.prototype.split\<close> with a one-character separator: never the empty array.\<close>

fun split :: "char \<Rightarrow> string \<Rightarrow> string list" where
  "split sep [] = [[]]"
| "split sep (c # cs) =
     (if c = sep then [] # split sep cs
      else (case split sep cs of [] \<Rightarrow> [[c]] | w # ws \<Rightarrow> (c # w) # ws))"

text \<open>
  \<open>parseInt(v, 10)\<close>: leading white space is skipped, one sign is read, then the longest
  run of decimal digits; no digit at all gives \<open>NaN\<close>, and what follows the digits is
  ignored.
\<close>

definition isWhiteSpace :: "char \<Rightarrow> bool" where
  "isWhiteSpace c = (c \<in> set [CHR 0x09, CHR 0x0A, CHR 0x0B, CHR 0x0C, CHR 0x0D, CHR 0x20])"

definition isDigit :: "char \<Rightarrow> bool" where
  "isDigit c = (48 \<le> (of_char c :: nat) \<and> (of_char c :: nat) \<le> 57)"

definition digitValue :: "char \<Rightarrow> int" where
  "digitValue c = int (of_char c) - 48"

definition digitsValue :: "string \<Rightarrow> int" where
  "digitsValue ds = foldl (\<lambda>acc c. acc * 10 + digitValue c) 0 ds"

definition parseInt :: "string \<Rightarrow> number" where
  "parseInt v =
     (let s = dropWhile isWhiteSpace v;
          neg = (case s of [] \<Rightarrow> False | c # _ \<Rightarrow> c = CHR ''-'');
          body = (case s of [] \<Rightarrow> [] | c # cs \<Rightarrow> if c = CHR ''-'' \<or> c = CHR ''+'' then cs else s);
          ds = takeWhile isDigit body
      in if ds = [] then NaN else Fin (if neg then - digitsValue ds else digitsValue ds))"

section \<open>Resolutions\<close>

text \<open>
  A \<open>Size\<close> as the code handles it: \<open>parseResolutionsString\<close> builds one from two
  \<open>parseInt\<close> results, so a field can be \<open>NaN\<close>. A missing second component is
  \<open>undefined\<close>, which every arithmetic operator turns into \<open>NaN\<close>; it is read as \<open>NaN\<close>
  here.
\<close>

record Size =
  width :: number
  height :: number

definition component :: "number list \<Rightarrow> nat \<Rightarrow> number" where
  "component v i = (if i < length v then v ! i else NaN)"

definition parseResolutionsString :: "string \<Rightarrow> Size" where
  "parseResolutionsString v =
     (let ns = map parseInt (split CHR ''x'' v)
      in \<lparr>width = component ns 0, height = component ns 1\<rparr>)"

text \<open>
  \<open>getClosestResolution\<close>. The three steps of the source are kept apart:
  \<open>numericResolutions\<close>, \<open>indexArray\<close> and the lookup of the minimum. The result is
  \<open>None\<close> where the source returns \<open>undefined\<close>.
\<close>

definition numericResolutions :: "string list \<Rightarrow> number list list" where
  "numericResolutions resolutions = map (\<lambda>v. map parseInt (split CHR ''x'' v)) resolutions"

definition weight :: "Size \<Rightarrow> number list \<Rightarrow> number" where
  "weight target v =
     Math_abs (js_add (js_mul (js_sub (width target) (component v 0)) (Fin 2))
                      (js_mul (js_sub (height target) (component v 1)) (Fin 4)))"

definition indexArray :: "string list \<Rightarrow> Size \<Rightarrow> number list" where
  "indexArray resolutions target = map (weight target) (numericResolutions resolutions)"

definition getClosestResolution :: "string list \<Rightarrow> Size \<Rightarrow> string option" where
  "getClosestResolution resolutions target =
     (let minValue = Math_min (indexArray resolutions target)
      in at_index resolutions (indexOf (indexArray resolutions target) minValue))"

text \<open>
  Decimal rendering of a natural number, as a template literal renders a track index and
  as a resolution is written.
\<close>

definition digitChar :: "nat \<Rightarrow> char" where
  "digitChar d = char_of (48 + d)"

fun showNat :: "nat \<Rightarrow> string" where
  "showNat n = (if n < 10 then [digitChar n] else showNat (n div 10) @ [digitChar (n mod 10)])"

declare showNat.simps [simp del]

definition showInt :: "int \<Rightarrow> string" where
  "showInt i = (if i < 0 then CHR ''-'' # showNat (nat (- i)) else showNat (nat i))"

section \<open>The recorder's state and the engine it drives\<close>

text \<open>
  The engine (obs-studio-node) is not part of the sources. It is modelled by what the
  recorder can observe of it:
  \<^item> a store of the source objects the recorder created, addressed by handle (a fresh
    handle per \<open>create\<close>), with the properties the recorder writes;
  \<^item> the output channels (\<open>Global.getOutputSource\<close> / \<open>Global.setOutputSource\<close>),
    \<open>None\<close> standing for \<open>undefined\<close>. The engine has 64 of them, 0 to 63, and the
    recorder's own loop over them stops at 63; the store here is a function on all
    naturals, and statements about channel contents are made for device counts that fit;
  \<^item> the list of calls made so far, in order (\<open>events\<close>);
  \<^item> the signals already pushed into \<open>waitQueue\<close>, the number of \<open>shift()\<close> calls that
    are still registered in the queue though the wait that made them has timed out
    (\<open>abandonedShifts\<close>), and the signals the engine is still going to push (\<open>pending\<close>),
    each with its delay in milliseconds after the previous push (after the present moment,
    for the first).
  What the engine answers during one call is gathered in the record \<open>engine\<close>.
  \<open>setSetting\<close> and \<open>getAvailableValues\<close> are taken at their interface: a setting
  written is recorded as one call, and the values the engine lists for a parameter are an
  answer of the engine (\<open>None\<close> where \<open>getAvailableValues\<close> returns \<open>undefined\<close>).
  Console output is left out.
\<close>

type_synonym handle = nat

record signalInfo =
  type :: string
  signal :: string

datatype jsvalue = Undefined | Bool bool | Str string | Number number | SignalInfo signalInfo

datatype error =
    Error string      \<comment> \<open>\<open>throw new Error(message)\<close>\<close>
  | TypeError         \<comment> \<open>a method called on \<open>undefined\<close>\<close>
  | Rejected string   \<comment> \<open>the timer's \<open>reject(reason)\<close>: the reason is a plain string\<close>

record ObsAudioDevice =
  id :: string
  name :: string

record OurDisplayType =
  index :: int
  physicalSize :: Size

record sceneItem =
  itemSource :: handle
  scale :: "number \<times> number"

record source =
  isScene :: bool
  sourceId :: string
  sourceName :: string
  settings :: "(string \<times> jsvalue) list"
  audioMixers :: int
  muted :: bool
  items :: "sceneItem list"

record watcher =
  watchedScene :: handle
  watchedItem :: nat
  watchedSource :: handle
  baseResolution :: Size

datatype event =
    StartRecording
  | StopRecording
  | RemoveCallback
  | Disconnect
  | Shift
  | SetTimeout nat string
  | SetSetting string string jsvalue
  | CreateInput handle string string "(string \<times> jsvalue) list"
  | UpdateSource handle "(string \<times> jsvalue) list"
  | SaveSource handle
  | CreateScene handle string
  | SceneAdd handle handle
  | SetOutputSource nat "handle option"
  | Release handle
  | Remove handle
  | ClearInterval
  | SetInterval nat

record obs =
  obsInitialized :: bool
  lastVideoSourceSize :: "Size option"
  timerVideoSourceSize :: "watcher option"
  waitQueue :: "signalInfo list"
  abandonedShifts :: nat
  pending :: "(nat \<times> signalInfo) list"
  nextHandle :: handle
  sources :: "handle \<Rightarrow> source option"
  outputSources :: "nat \<Rightarrow> handle option"
  events :: "event list"

record engine =
  removeCallbackThrows :: "string option"
  disconnectThrows :: "string option"
  availableValues :: "string \<Rightarrow> string \<Rightarrow> string \<Rightarrow> string list option"
  displays :: "OurDisplayType list"
  inputDevices :: "ObsAudioDevice list"
  outputDevices :: "ObsAudioDevice list"

definition emit :: "event \<Rightarrow> obs \<Rightarrow> obs" where
  "emit e s = s\<lparr>events := events s @ [e]\<rparr>"

text \<open>Sequencing: an exception ends the call with the state reached so far.\<close>

definition andThen ::
  "('e + 'a) \<times> 's \<Rightarrow> ('a \<Rightarrow> 's \<Rightarrow> ('e + 'b) \<times> 's) \<Rightarrow> ('e + 'b) \<times> 's" where
  "andThen r f = (case r of (Inl e, s) \<Rightarrow> (Inl e, s) | (Inr x, s) \<Rightarrow> f x s)"

subsection \<open>Engine calls\<close>

definition setSetting :: "string \<Rightarrow> string \<Rightarrow> jsvalue \<Rightarrow> obs \<Rightarrow> obs" where
  "setSetting category parameter v s = emit (SetSetting category parameter v) s"

definition getAvailableValues :: "engine \<Rightarrow> string \<Rightarrow> string \<Rightarrow> string \<Rightarrow> string list option" where
  "getAvailableValues eng category subcategory parameter =
     availableValues eng category subcategory parameter"

definition getObsAvailableRecEncoders :: "engine \<Rightarrow> string list option" where
  "getObsAvailableRecEncoders eng = getAvailableValues eng ''Output'' ''Recording'' ''RecEncoder''"

text \<open>
  A new input has the engine's defaults; of these only \<open>muted\<close> and \<open>audioMixers\<close>
  appear in the record, and the recorder overwrites both before it reads them.
\<close>

definition InputFactory_create ::
  "string \<Rightarrow> string \<Rightarrow> (string \<times> jsvalue) list \<Rightarrow> obs \<Rightarrow> handle \<times> obs" where
  "InputFactory_create ident nm sets s =
     (let h = nextHandle s
      in (h, emit (CreateInput h ident nm sets)
               (s\<lparr>nextHandle := h + 1,
                  sources := (sources s)(h \<mapsto>
                    \<lparr>isScene = False, sourceId = ident, sourceName = nm, settings = sets,
                     audioMixers = 0, muted = False, items = []\<rparr>)\<rparr>)))"

definition SceneFactory_create :: "string \<Rightarrow> obs \<Rightarrow> handle \<times> obs" where
  "SceneFactory_create nm s =
     (let h = nextHandle s
      in (h, emit (CreateScene h nm)
               (s\<lparr>nextHandle := h + 1,
                  sources := (sources s)(h \<mapsto>
                    \<lparr>isScene = True, sourceId = ''scene'', sourceName = nm, settings = [],
                     audioMixers = 0, muted = False, items = []\<rparr>)\<rparr>)))"

definition modify :: "handle \<Rightarrow> (source \<Rightarrow> source) \<Rightarrow> obs \<Rightarrow> obs" where
  "modify h f s = s\<lparr>sources := (sources s)(h := map_option f (sources s h))\<rparr>"

text \<open>
  \<open>scene.add\<close> appends an item to the scene and returns it; an item is named by its scene
  and its position there.
\<close>

definition scene_add :: "handle \<Rightarrow> handle \<Rightarrow> obs \<Rightarrow> nat \<times> obs" where
  "scene_add scene src s =
     (case sources s scene of
        None \<Rightarrow> (0, emit (SceneAdd scene src) s)
      | Some sc \<Rightarrow>
          (length (items sc),
           emit (SceneAdd scene src)
             (modify scene (\<lambda>sc. sc\<lparr>items := items sc @ [\<lparr>itemSource = src, scale = (Fin 1, Fin 1)\<rparr>]\<rparr>) s)))"

definition sceneItem_setScale :: "handle \<Rightarrow> nat \<Rightarrow> number \<times> number \<Rightarrow> obs \<Rightarrow> obs" where
  "sceneItem_setScale scene pos v s =
     modify scene (\<lambda>sc. sc\<lparr>items := map (\<lambda>(k, it). if k = pos then it\<lparr>scale := v\<rparr> else it)
                                      (zip [0..<length (items sc)] (items sc))\<rparr>) s"

definition source_settings :: "handle \<Rightarrow> obs \<Rightarrow> (string \<times> jsvalue) list" where
  "source_settings h s = (case sources s h of None \<Rightarrow> [] | Some src \<Rightarrow> settings src)"

text \<open>The assignment \<open>settings[key] = v\<close> on a settings object.\<close>

definition setProperty :: "string \<Rightarrow> jsvalue \<Rightarrow> (string \<times> jsvalue) list \<Rightarrow> (string \<times> jsvalue) list" where
  "setProperty key v kvs =
     (if key \<in> fst ` set kvs then map (\<lambda>(k, w). if k = key then (k, v) else (k, w)) kvs
      else kvs @ [(key, v)])"

definition source_update :: "handle \<Rightarrow> (string \<times> jsvalue) list \<Rightarrow> obs \<Rightarrow> obs" where
  "source_update h sets s = emit (UpdateSource h sets) (modify h (\<lambda>src. src\<lparr>settings := sets\<rparr>) s)"

definition source_save :: "handle \<Rightarrow> obs \<Rightarrow> obs" where
  "source_save h s = emit (SaveSource h) s"

definition source_release :: "handle \<Rightarrow> obs \<Rightarrow> obs" where
  "source_release h s = emit (Release h) s"

definition source_remove :: "handle \<Rightarrow> obs \<Rightarrow> obs" where
  "source_remove h s = emit (Remove h) s"

definition Global_setOutputSource :: "nat \<Rightarrow> handle option \<Rightarrow> obs \<Rightarrow> obs" where
  "Global_setOutputSource channel src s =
     emit (SetOutputSource channel src) (s\<lparr>outputSources := (outputSources s)(channel := src)\<rparr>)"

definition Global_getOutputSource :: "nat \<Rightarrow> obs \<Rightarrow> handle option" where
  "Global_getOutputSource channel s = outputSources s channel"


subsection \<open>The signal protocol: \<open>assertNextSignal\<close>, \<open>start\<close>, \<open>stop\<close>\<close>

text \<open>
  \<open>Promise.race([waitQueue.shift(), timer])\<close>. The queue, an object of the library
  \<open>wait-queue\<close>, keeps in order of arrival the signals pushed and not yet taken, and the
  \<open>shift()\<close> calls made on an empty queue and not yet served. \<open>shift()\<close> on a non-empty
  queue resolves at once with the head. On an empty queue it registers a listener behind
  those already registered; a signal pushed afterwards is handed to the first listener
  registered, which leaves the queue empty again. The timer rejects with its reason, a
  string naming the awaited value, and it does not cancel the \<open>shift()\<close> it races against:
  when a wait times out its listener stays registered, nobody reads what it receives, and
  it takes the next signal pushed, which a later wait would otherwise have received.

  \<open>shiftOrTimeout n left signals\<close> follows one wait on an empty queue, with \<open>n\<close>
  abandoned listeners registered before its own, \<open>left\<close> milliseconds to go before its
  timer fires, and the signals to come. It gives the signal the wait receives, if any, the
  number of abandoned listeners registered afterwards (after a timeout the wait's own
  listener is one of them), and the signals still to come. A signal arriving at the very
  moment the timer fires is taken to lose against the timer.
\<close>

definition timeoutReason :: "string \<Rightarrow> string" where
  "timeoutReason v = ''OBS didn't signal '' @ v @ '' in time''"

fun shiftOrTimeout ::
  "nat \<Rightarrow> nat \<Rightarrow> (nat \<times> signalInfo) list \<Rightarrow> signalInfo option \<times> nat \<times> (nat \<times> signalInfo) list"
where
  "shiftOrTimeout n left [] = (None, Suc n, [])"
| "shiftOrTimeout n left ((delay, x) # rest) =
     (if delay < left
      then (case n of
              0 \<Rightarrow> (Some x, 0, rest)
            | Suc k \<Rightarrow> shiftOrTimeout k (left - delay) rest)
      else (None, Suc n, (delay - left, x) # rest))"

definition race :: "string \<Rightarrow> obs \<Rightarrow> (error + signalInfo) \<times> obs" where
  "race v s =
     (let s1 = emit (SetTimeout 5000 (timeoutReason v)) (emit Shift s)
      in case waitQueue s1 of
           x # queue \<Rightarrow> (Inr x, s1\<lparr>waitQueue := queue\<rparr>)
         | [] \<Rightarrow>
             (let (received, n, rest) = shiftOrTimeout (abandonedShifts s1) 5000 (pending s1);
                  s2 = s1\<lparr>abandonedShifts := n, pending := rest\<rparr>
              in case received of
                   Some x \<Rightarrow> (Inr x, s2)
                 | None \<Rightarrow> (Inl (Rejected (timeoutReason v)), s2)))"

text \<open>
  \<open>assertNextSignal\<close> is an \<open>async\<close> function without a \<open>return\<close>: when both checks pass
  its promise resolves with \<open>undefined\<close>.
\<close>

definition assertNextSignal :: "string \<Rightarrow> obs \<Rightarrow> (error + jsvalue) \<times> obs" where
  "assertNextSignal v s =
     andThen (race v s) (\<lambda>signalInfo s1.
       if type signalInfo \<noteq> ''recording'' then (Inl (Error ''OBS behaved unexpectedly (2)''), s1)
       else if signal signalInfo \<noteq> v then (Inl (Error ''OBS behaved unexpectedly (3)''), s1)
       else (Inr Undefined, s1))"

definition start :: "obs \<Rightarrow> (error + jsvalue) \<times> obs" where
  "start s =
     (if \<not> obsInitialized s then (Inl (Error ''OBS not initialised''), s)
      else andThen (assertNextSignal ''start'' (emit StartRecording s)) (\<lambda>_ s1. (Inr Undefined, s1)))"

definition stop :: "obs \<Rightarrow> (error + jsvalue) \<times> obs" where
  "stop s =
     andThen (assertNextSignal ''stopping'' (emit StopRecording s)) (\<lambda>_ s1.
     andThen (assertNextSignal ''stop'' s1) (\<lambda>_ s2.
     andThen (assertNextSignal ''wrote'' s2) (\<lambda>_ s3. (Inr Undefined, s3))))"

subsection \<open>\<open>shutdown\<close>\<close>

text \<open>
  The two engine calls stand in a \<open>try\<close> block; \<open>removeCallbackThrows\<close> and
  \<open>disconnectThrows\<close> give the text of the exception the engine raises in them, if any
  (its rendering in the string concatenation of the \<open>catch\<close> clause).
\<close>

definition shutdown :: "engine \<Rightarrow> obs \<Rightarrow> (error + bool) \<times> obs" where
  "shutdown eng s =
     (if \<not> obsInitialized s then (Inr False, s)
      else
        (let s1 = emit RemoveCallback s
         in case removeCallbackThrows eng of
              Some e \<Rightarrow> (Inl (Error (''Exception when shutting down OBS process'' @ e)), s1)
            | None \<Rightarrow>
                (let s2 = emit Disconnect s1
                 in case disconnectThrows eng of
                      Some e \<Rightarrow> (Inl (Error (''Exception when shutting down OBS process'' @ e)), s2)
                    | None \<Rightarrow> (Inr True, s2\<lparr>obsInitialized := False\<rparr>))))"

subsection \<open>Configuration: \<open>configureOBS\<close>, \<open>setupScene\<close>\<close>

record RecorderOptionsType =
  bufferStorageDir :: string
  obsKBitRate :: int
  obsFPS :: int
  obsRecEncoder :: string
  obsOutputResolution :: string
  obsCaptureMode :: string
  monitorIndex :: int
  audioInputDeviceId :: string
  audioOutputDeviceId :: string

text \<open>
  \<open>availableEncoders.includes\<close> and \<open>.slice\<close> raise a \<open>TypeError\<close> when
  \<open>getAvailableValues\<close> returned \<open>undefined\<close>; the last element of an empty list is
  \<open>undefined\<close>. An empty encoder name is falsy.
\<close>

definition setObsRecEncoder :: "engine \<Rightarrow> RecorderOptionsType \<Rightarrow> obs \<Rightarrow> (error + unit) \<times> obs" where
  "setObsRecEncoder eng options s =
     (case getObsAvailableRecEncoders eng of
        None \<Rightarrow> (Inl TypeError, s)
      | Some availableEncoders \<Rightarrow>
          (let encoder = obsRecEncoder options;
               autoPickEncoder = (encoder = [] \<or> encoder = ''auto'');
               autoPickEncoder = (autoPickEncoder \<or> encoder \<notin> set availableEncoders);
               chosen = (if autoPickEncoder
                         then (if availableEncoders = [] then Undefined else Str (last availableEncoders))
                         else Str encoder)
           in (Inr (), setSetting ''Output'' ''RecEncoder'' chosen s)))"

definition configureOBS :: "engine \<Rightarrow> RecorderOptionsType \<Rightarrow> obs \<Rightarrow> (error + unit) \<times> obs" where
  "configureOBS eng options s =
     andThen (setObsRecEncoder eng options (setSetting ''Output'' ''Mode'' (Str ''Advanced'') s))
       (\<lambda>_ s1. (Inr (),
          (setSetting ''Video'' ''FPSCommon'' (Number (Fin (obsFPS options)))
           \<circ> setSetting ''Output'' ''Recmax_bitrate'' (Number (Fin 300000))
           \<circ> setSetting ''Output'' ''Recbitrate'' (Number (Fin (obsKBitRate options * 1024)))
           \<circ> setSetting ''Output'' ''Recrate_control'' (Str ''VBR'')
           \<circ> setSetting ''Output'' ''RecFormat'' (Str ''mp4'')
           \<circ> setSetting ''Output'' ''RecFilePath'' (Str (bufferStorageDir options))) s1))"

definition displayInfo :: "engine \<Rightarrow> int \<Rightarrow> OurDisplayType option" where
  "displayInfo eng displayIndex = find (\<lambda>d. index d = displayIndex) (displays eng)"

definition optionalString :: "string option \<Rightarrow> jsvalue" where
  "optionalString r = (case r of None \<Rightarrow> Undefined | Some v \<Rightarrow> Str v)"

text \<open>
  \<open>setOBSVideoResolution\<close>: \<open>resolutions.map\<close> inside \<open>getClosestResolution\<close> raises a
  \<open>TypeError\<close> when the engine lists nothing for the parameter; otherwise whatever
  \<open>getClosestResolution\<close> returns is written, \<open>undefined\<close> included.
\<close>

definition setOBSVideoResolution :: "engine \<Rightarrow> Size \<Rightarrow> string \<Rightarrow> obs \<Rightarrow> (error + unit) \<times> obs" where
  "setOBSVideoResolution eng res paramString s =
     (case getAvailableValues eng ''Video'' ''Untitled'' paramString of
        None \<Rightarrow> (Inl TypeError, s)
      | Some availableResolutions \<Rightarrow>
          (Inr (), setSetting ''Video'' paramString
                     (optionalString (getClosestResolution availableResolutions res)) s))"

definition createGameCaptureSource :: "obs \<Rightarrow> handle \<times> obs" where
  "createGameCaptureSource s =
     (let (videoSource, s1) = InputFactory_create ''game_capture'' ''Game Capture'' [] s;
          sets = (setProperty ''window'' (Str ''World of Warcraft:GxWindowClass:Wow.exe'')
                  \<circ> setProperty ''priority'' (Number (Fin 1))
                  \<circ> setProperty ''allow_transparency'' (Bool True)
                  \<circ> setProperty ''capture_mode'' (Str ''window'')
                  \<circ> setProperty ''capture_cursor'' (Bool True)) (source_settings videoSource s1)
      in (videoSource, source_save videoSource (source_update videoSource sets s1)))"

definition createMonitorCaptureSource :: "int \<Rightarrow> obs \<Rightarrow> handle \<times> obs" where
  "createMonitorCaptureSource monitorIdx s =
     (let (videoSource, s1) = InputFactory_create ''monitor_capture'' ''Monitor Capture'' [] s;
          sets = setProperty ''monitor'' (Number (Fin monitorIdx)) (source_settings videoSource s1)
      in (videoSource, source_save videoSource (source_update videoSource sets s1)))"

text \<open>
  \<open>watchVideoSourceSize\<close> cancels the running timer and starts one for the new item. The
  periodic callback itself is not part of this development.
\<close>

definition watchVideoSourceSize :: "handle \<Rightarrow> nat \<Rightarrow> handle \<Rightarrow> Size \<Rightarrow> obs \<Rightarrow> obs" where
  "watchVideoSourceSize scene pos videoSource base s =
     emit (SetInterval 5000)
       ((emit ClearInterval s)\<lparr>timerVideoSourceSize :=
          Some \<lparr>watchedScene = scene, watchedItem = pos, watchedSource = videoSource,
                baseResolution = base\<rparr>\<rparr>)"

definition selectVideoSource ::
  "engine \<Rightarrow> RecorderOptionsType \<Rightarrow> Size \<Rightarrow> obs \<Rightarrow> (error + Size \<times> handle) \<times> obs" where
  "selectVideoSource eng options outputResolution s =
     (if obsCaptureMode options = ''monitor_capture'' then
        (let monitorIndexFromZero = monitorIndex options - 1
         in case displayInfo eng monitorIndexFromZero of
              None \<Rightarrow>
                (Inl (Error (''[OBS] No such display with index: '' @ showInt monitorIndexFromZero @ ''.'')), s)
            | Some selectedDisplay \<Rightarrow>
                (let (videoSource, s1) = createMonitorCaptureSource monitorIndexFromZero s
                 in (Inr (physicalSize selectedDisplay, videoSource), s1)))
      else if obsCaptureMode options = ''game_capture'' then
        (let (videoSource, s1) = createGameCaptureSource s
         in (Inr (outputResolution, videoSource), s1))
      else (Inl (Error (''[OBS] Invalid capture mode: '' @ obsCaptureMode options)), s))"

definition setupScene :: "engine \<Rightarrow> RecorderOptionsType \<Rightarrow> obs \<Rightarrow> (error + handle) \<times> obs" where
  "setupScene eng options s =
     (let outputResolution = parseResolutionsString (obsOutputResolution options)
      in andThen (setOBSVideoResolution eng outputResolution ''Output'' s) (\<lambda>_ s1.
         andThen (selectVideoSource eng options outputResolution s1) (\<lambda>(base, videoSource) s2.
         andThen (setOBSVideoResolution eng base ''Base'' s2) (\<lambda>_ s3.
           (let (scene, s4) = SceneFactory_create ''main'' s3;
                (pos, s5) = scene_add scene videoSource s4;
                s6 = sceneItem_setScale scene pos (Fin 1, Fin 1) s5
            in (Inr scene, watchVideoSourceSize scene pos videoSource base s6))))))"

subsection \<open>Audio: \<open>getAudioDevices\<close>, \<open>clearSources\<close>, \<open>setupSources\<close>\<close>

text \<open>
  \<open>getAudioDevices\<close> creates a dummy input, reads the devices the engine offers for its
  \<open>device_id\<close> property, and releases the dummy. The diagnostic listing of the public
  sources is left out.
\<close>

definition deviceItems :: "engine \<Rightarrow> string \<Rightarrow> ObsAudioDevice list" where
  "deviceItems eng ty =
     (if ty = ''wasapi_input_capture'' then inputDevices eng
      else if ty = ''wasapi_output_capture'' then outputDevices eng else [])"

definition getAudioDevices :: "engine \<Rightarrow> string \<Rightarrow> string \<Rightarrow> obs \<Rightarrow> ObsAudioDevice list \<times> obs" where
  "getAudioDevices eng ty subtype s =
     (let (dummyDevice, s1) = InputFactory_create ty subtype [(''device_id'', Str ''does_not_exist'')] s
      in (deviceItems eng ty, source_release dummyDevice s1))"

definition getAvailableAudioInputDevices :: "engine \<Rightarrow> obs \<Rightarrow> ObsAudioDevice list \<times> obs" where
  "getAvailableAudioInputDevices eng s =
     (let (devices, s1) = getAudioDevices eng ''wasapi_input_capture'' ''mic-audio'' s
      in (filter (\<lambda>v. id v \<noteq> ''default'') devices, s1))"

definition getAvailableAudioOutputDevices :: "engine \<Rightarrow> obs \<Rightarrow> ObsAudioDevice list \<times> obs" where
  "getAvailableAudioOutputDevices eng s =
     (let (devices, s1) = getAudioDevices eng ''wasapi_output_capture'' ''desktop-audio'' s
      in (filter (\<lambda>v. id v \<noteq> ''default'') devices, s1))"

definition trackName :: "nat \<Rightarrow> string" where
  "trackName n = ''Track'' @ showNat n @ ''Name''"

text \<open>The body of the loop of \<open>clearSources\<close>, and the loop over the channels 1 to 63.\<close>

definition clearSource :: "nat \<Rightarrow> obs \<Rightarrow> obs" where
  "clearSource channel s =
     (case Global_getOutputSource channel s of
        None \<Rightarrow> s
      | Some src \<Rightarrow>
          (source_remove src \<circ> source_release src \<circ> Global_setOutputSource channel None
           \<circ> setSetting ''Output'' (trackName channel) (Str [])) s)"

definition clearedChannels :: "nat list" where
  "clearedChannels = [1..<64]"

definition clearSources :: "obs \<Rightarrow> obs" where
  "clearSources s = setSetting ''Output'' ''RecTracks'' (Number (Fin 0)) (fold clearSource clearedChannels s)"

text \<open>
  The mixer mask \<open>1 | (1 << currentTrack-1)\<close> is computed on 32-bit integers, the shift
  count taken modulo 32. The mute flag is the expression of the source.
\<close>

definition mixerMask :: "nat \<Rightarrow> int" where
  "mixerMask currentTrack = sint ((1 :: 32 word) OR push_bit ((currentTrack - 1) mod 32) 1)"

definition mutedFor :: "string \<Rightarrow> ObsAudioDevice \<Rightarrow> bool" where
  "mutedFor selection device =
     (selection = ''none'' \<or> (selection \<noteq> ''all'' \<and> id device \<noteq> selection))"

text \<open>
  The body of the two \<open>forEach\<close> loops of \<open>setupSources\<close> (they differ in the source type,
  its name and the selection) and the loop itself, which carries \<open>currentTrack\<close>.
\<close>

definition addAudioSource :: "string \<Rightarrow> string \<Rightarrow> string \<Rightarrow> ObsAudioDevice \<Rightarrow> nat \<Rightarrow> obs \<Rightarrow> obs" where
  "addAudioSource ty nm selection device currentTrack s =
     (let (src, s1) = InputFactory_create ty nm [(''device_id'', Str (id device))] s;
          s2 = setSetting ''Output'' (trackName currentTrack) (Str (name device)) s1;
          s3 = modify src (\<lambda>x. x\<lparr>audioMixers := mixerMask currentTrack\<rparr>) s2;
          s4 = modify src (\<lambda>x. x\<lparr>muted := mutedFor selection device\<rparr>) s3;
          s5 = Global_setOutputSource currentTrack (Some src) s4
      in source_release src s5)"

fun addAudioSources ::
  "string \<Rightarrow> string \<Rightarrow> string \<Rightarrow> ObsAudioDevice list \<Rightarrow> nat \<Rightarrow> obs \<Rightarrow> nat \<times> obs" where
  "addAudioSources ty nm selection [] currentTrack s = (currentTrack, s)"
| "addAudioSources ty nm selection (device # devices) currentTrack s =
     addAudioSources ty nm selection devices (currentTrack + 1)
       (addAudioSource ty nm selection device currentTrack s)"

text \<open>\<open>parseInt('1'.repeat(n), 2)\<close>: the number written with \<open>n\<close> binary ones.\<close>

definition recTracksMask :: "nat \<Rightarrow> number" where
  "recTracksMask n = (if n = 0 then NaN else Fin (2 ^ n - 1))"

definition setupSources :: "engine \<Rightarrow> handle \<Rightarrow> string \<Rightarrow> string \<Rightarrow> obs \<Rightarrow> obs" where
  "setupSources eng scene audioInputDeviceId' audioOutputDeviceId' s =
     (let s1 = clearSources s;
          s2 = Global_setOutputSource 1 (Some scene) s1;
          s3 = setSetting ''Output'' ''Track1Name'' (Str ''Mixed: all sources'') s2;
          (inputs, s4) = getAvailableAudioInputDevices eng s3;
          (currentTrack, s5) =
             addAudioSources ''wasapi_input_capture'' ''mic-audio'' audioInputDeviceId' inputs 2 s4;
          (outputs, s6) = getAvailableAudioOutputDevices eng s5;
          (currentTrack, s7) =
             addAudioSources ''wasapi_output_capture'' ''desktop-audio'' audioOutputDeviceId' outputs
               currentTrack s6
      in setSetting ''Output'' ''RecTracks'' (Number (recTracksMask (currentTrack - 1))) s7)"

subsection \<open>\<open>reconfigure\<close>\<close>

definition reconfigure :: "engine \<Rightarrow> RecorderOptionsType \<Rightarrow> obs \<Rightarrow> (error + unit) \<times> obs" where
  "reconfigure eng options s =
     andThen (configureOBS eng options (s\<lparr>lastVideoSourceSize := None\<rparr>)) (\<lambda>_ s1.
     andThen (setupScene eng options s1) (\<lambda>scene s2.
       (Inr (), setupSources eng scene (audioInputDeviceId options) (audioOutputDeviceId options) s2)))"


section \<open>Notions used to state the properties\<close>

subsection \<open>Resolutions\<close>

text \<open>
  The string \<open>"WxH"\<close> of a size with natural dimensions; the two integers a resolution
  string parses to (\<open>None\<close> when one of the first two components is not a number); the
  score of a resolution string against a target, in integers.
\<close>

definition resolutionString :: "nat \<Rightarrow> nat \<Rightarrow> string" where
  "resolutionString w h = showNat w @ ''x'' @ showNat h"

definition dims :: "string \<Rightarrow> (int \<times> int) option" where
  "dims v = (case map parseInt (split CHR ''x'' v) of
               Fin w # Fin h # _ \<Rightarrow> Some (w, h)
             | _ \<Rightarrow> None)"

definition wellFormed :: "string \<Rightarrow> bool" where
  "wellFormed v = (dims v \<noteq> None)"

definition score :: "int \<Rightarrow> int \<Rightarrow> string \<Rightarrow> int" where
  "score tw th v = (case dims v of Some (w, h) \<Rightarrow> \<bar>(tw - w) * 2 + (th - h) * 4\<bar> | None \<Rightarrow> 0)"

subsection \<open>Signals\<close>

text \<open>
  The two calls one wait makes. The moment at which the signal number \<open>n + 1\<close> of those
  to come arrives, in milliseconds from now. The signal a wait receives: the head of the
  queue, or, on an empty queue, the first signal to come that no abandoned \<open>shift()\<close>
  takes (with \<open>n\<close> of them registered, the signal number \<open>n + 1\<close>), provided it arrives
  less than 5000 ms after the wait began. A signal of the category \<open>"recording"\<close>.
\<close>

definition waitEvents :: "string \<Rightarrow> event list" where
  "waitEvents v = [Shift, SetTimeout 5000 (''OBS didn't signal '' @ v @ '' in time'')]"

definition arrivalTime :: "nat \<Rightarrow> (nat \<times> signalInfo) list \<Rightarrow> nat" where
  "arrivalTime n signals = sum_list (map fst (take (Suc n) signals))"

definition nextSignal :: "obs \<Rightarrow> signalInfo option" where
  "nextSignal s =
     (case waitQueue s of
        x # _ \<Rightarrow> Some x
      | [] \<Rightarrow>
          if abandonedShifts s < length (pending s)
             \<and> arrivalTime (abandonedShifts s) (pending s) < 5000
          then Some (snd (pending s ! abandonedShifts s))
          else None)"

definition recordingSignal :: "string \<Rightarrow> signalInfo" where
  "recordingSignal kind = \<lparr>type = ''recording'', signal = kind\<rparr>"

subsection \<open>Sources, channels and traces\<close>

text \<open>
  The devices that get a track (\<open>getAvailableAudioInputDevices\<close> and its twin drop the
  device called \<open>default\<close>); the source object a channel holds; the objects
  \<open>setupSources\<close> and \<open>setupScene\<close> build.
\<close>

definition availableInputs :: "engine \<Rightarrow> ObsAudioDevice list" where
  "availableInputs eng = filter (\<lambda>v. id v \<noteq> ''default'') (inputDevices eng)"

definition availableOutputs :: "engine \<Rightarrow> ObsAudioDevice list" where
  "availableOutputs eng = filter (\<lambda>v. id v \<noteq> ''default'') (outputDevices eng)"

definition trackSource :: "obs \<Rightarrow> nat \<Rightarrow> source option" where
  "trackSource s channel = (case outputSources s channel of None \<Rightarrow> None | Some h \<Rightarrow> sources s h)"

definition audioSource :: "string \<Rightarrow> string \<Rightarrow> string \<Rightarrow> ObsAudioDevice \<Rightarrow> nat \<Rightarrow> source" where
  "audioSource ty nm selection device track =
     \<lparr>isScene = False, sourceId = ty, sourceName = nm,
      settings = [(''device_id'', Str (id device))],
      audioMixers = mixerMask track, muted = mutedFor selection device, items = []\<rparr>"

definition dummySource :: "string \<Rightarrow> string \<Rightarrow> source" where
  "dummySource ty nm =
     \<lparr>isScene = False, sourceId = ty, sourceName = nm,
      settings = [(''device_id'', Str ''does_not_exist'')],
      audioMixers = 0, muted = False, items = []\<rparr>"

definition sceneSource :: "handle \<Rightarrow> source" where
  "sceneSource video =
     \<lparr>isScene = True, sourceId = ''scene'', sourceName = ''main'', settings = [],
      audioMixers = 0, muted = False, items = [\<lparr>itemSource = video, scale = (Fin 1, Fin 1)\<rparr>]\<rparr>"

text \<open>
  The calls \<open>clearSources\<close> makes in a state: four for every occupied channel from 1 to 63,
  then the reset of the track mask.
\<close>

definition clearedAt :: "obs \<Rightarrow> nat \<Rightarrow> event list" where
  "clearedAt s channel =
     (case outputSources s channel of
        None \<Rightarrow> []
      | Some h \<Rightarrow> [SetSetting ''Output'' (trackName channel) (Str []),
                   SetOutputSource channel None, Release h, Remove h])"

definition clearEvents :: "obs \<Rightarrow> event list" where
  "clearEvents s =
     concat (map (clearedAt s) clearedChannels) @ [SetSetting ''Output'' ''RecTracks'' (Number (Fin 0))]"

text \<open>The states \<open>setupSources\<close> passes through.\<close>

definition afterClear :: "handle \<Rightarrow> obs \<Rightarrow> obs" where
  "afterClear scene s =
     setSetting ''Output'' ''Track1Name'' (Str ''Mixed: all sources'')
       (Global_setOutputSource 1 (Some scene) (clearSources s))"

definition afterInputs :: "engine \<Rightarrow> handle \<Rightarrow> string \<Rightarrow> obs \<Rightarrow> obs" where
  "afterInputs eng scene a s =
     snd (addAudioSources ''wasapi_input_capture'' ''mic-audio'' a (availableInputs eng) 2
            (snd (getAvailableAudioInputDevices eng (afterClear scene s))))"

definition afterOutputs :: "engine \<Rightarrow> handle \<Rightarrow> string \<Rightarrow> string \<Rightarrow> obs \<Rightarrow> obs" where
  "afterOutputs eng scene a b s =
     snd (addAudioSources ''wasapi_output_capture'' ''desktop-audio'' b (availableOutputs eng)
            (2 + length (availableInputs eng))
            (snd (getAvailableAudioOutputDevices eng (afterInputs eng scene a s))))"

text \<open>
  Kinds of calls: those that detach or release a source, those that create an audio
  capture source, those that create any source.
\<close>

fun detachesOrReleases :: "event \<Rightarrow> bool" where
  "detachesOrReleases (SetOutputSource _ _) = True"
| "detachesOrReleases (Release _) = True"
| "detachesOrReleases (Remove _) = True"
| "detachesOrReleases _ = False"

fun createsAudioSource :: "event \<Rightarrow> bool" where
  "createsAudioSource (CreateInput _ ty _ _) =
     (ty = ''wasapi_input_capture'' \<or> ty = ''wasapi_output_capture'')"
| "createsAudioSource _ = False"

fun createsSource :: "event \<Rightarrow> bool" where
  "createsSource (CreateInput _ _ _ _) = True"
| "createsSource (CreateScene _ _) = True"
| "createsSource _ = False"

text \<open>
  "Every one of the handles \<open>old\<close> is released before any source is created": each has
  its \<open>Release\<close> in the part of the trace that precedes the first creation.
\<close>

definition releasedBeforeAnyCreate :: "handle list \<Rightarrow> event list \<Rightarrow> bool" where
  "releasedBeforeAnyCreate old trace =
     list_all (\<lambda>h. Release h \<in> set (takeWhile (\<lambda>e. \<not> createsSource e) trace)) old"

text \<open>
  What is attached to the engine's output: the channels that hold a scene, the video
  sources placed in those scenes, the audio channels (2 to 63) that hold a source, and all
  occupied channels.
\<close>

definition allChannels :: "nat list" where
  "allChannels = [0..<64]"

definition audioChannels :: "nat list" where
  "audioChannels = [2..<64]"

definition sceneChannels :: "obs \<Rightarrow> nat list" where
  "sceneChannels s =
     filter (\<lambda>i. case trackSource s i of None \<Rightarrow> False | Some src \<Rightarrow> isScene src) allChannels"

definition attachedVideoSources :: "obs \<Rightarrow> handle list" where
  "attachedVideoSources s =
     concat (map (\<lambda>i. case trackSource s i of None \<Rightarrow> [] | Some src \<Rightarrow> map itemSource (items src))
               (sceneChannels s))"

definition audioTracks :: "obs \<Rightarrow> nat list" where
  "audioTracks s = filter (\<lambda>i. outputSources s i \<noteq> None) audioChannels"

definition occupiedChannels :: "obs \<Rightarrow> nat list" where
  "occupiedChannels s = filter (\<lambda>i. outputSources s i \<noteq> None) allChannels"

subsection \<open>A concrete setting\<close>

text \<open>
  The state of the module when it is loaded, an engine with one microphone and one pair
  of speakers besides the default input, and options for window capture.
\<close>

definition initialState :: obs where
  "initialState =
     \<lparr>obsInitialized = False, lastVideoSourceSize = None, timerVideoSourceSize = None,
      waitQueue = [], abandonedShifts = 0, pending = [], nextHandle = 0, sources = (\<lambda>_. None),
      outputSources = (\<lambda>_. None), events = []\<rparr>"

definition exampleEngine :: engine where
  "exampleEngine =
     \<lparr>removeCallbackThrows = None, disconnectThrows = None,
      availableValues = (\<lambda>category subcategory parameter.
         if category = ''Video'' then Some [''1920x1080'', ''1280x720''] else Some [''x264'']),
      displays = [],
      inputDevices = [\<lparr>id = ''default'', name = ''Default''\<rparr>, \<lparr>id = ''mic1'', name = ''Microphone''\<rparr>],
      outputDevices = [\<lparr>id = ''spk1'', name = ''Speakers''\<rparr>]\<rparr>"

definition exampleOptions :: RecorderOptionsType where
  "exampleOptions =
     \<lparr>bufferStorageDir = ''D:/buffer'', obsKBitRate = 15, obsFPS = 60, obsRecEncoder = ''auto'',
      obsOutputResolution = ''1920x1080'', obsCaptureMode = ''game_capture'', monitorIndex = 1,
      audioInputDeviceId = ''all'', audioOutputDeviceId = ''none''\<rparr>"

section \<open>The closest resolution\<close>

subsection \<open>Decimal strings parse back\<close>

lemma isDigit_digitChar: "d < 10 \<Longrightarrow> isDigit (digitChar d)"
  by (simp add: isDigit_def digitChar_def)

lemma digitValue_digitChar: "d < 10 \<Longrightarrow> digitValue (digitChar d) = int d"
  by (simp add: digitValue_def digitChar_def)

lemma showNat_digits: "\<forall>c\<in>set (showNat n). isDigit c"
proof (induction n rule: showNat.induct)
  case (1 n)
  show ?case
  proof (cases "n < 10")
    case True
    then show ?thesis by (simp add: showNat.simps [of n] isDigit_digitChar)
  next
    case False
    with 1 show ?thesis by (simp add: showNat.simps [of n] isDigit_digitChar)
  qed
qed

lemma showNat_nonempty: "showNat n \<noteq> []"
  by (simp add: showNat.simps [of n])

lemma digitsValue_snoc: "digitsValue (ds @ [c]) = digitsValue ds * 10 + digitValue c"
  by (simp add: digitsValue_def)

lemma digitsValue_showNat: "digitsValue (showNat n) = int n"
proof (induction n rule: showNat.induct)
  case (1 n)
  show ?case
  proof (cases "n < 10")
    case True
    then show ?thesis by (simp add: showNat.simps [of n] digitsValue_def digitValue_digitChar)
  next
    case False
    with 1 have "digitsValue (showNat (n div 10)) = int (n div 10)" by simp
    moreover have "int (n div 10) * 10 + int (n mod 10) = int n" by presburger
    ultimately show ?thesis using False
      by (simp add: showNat.simps [of n] digitsValue_snoc digitValue_digitChar)
  qed
qed

lemma digit_not_space: "isDigit c \<Longrightarrow> \<not> isWhiteSpace c"
  by (auto simp: isDigit_def isWhiteSpace_def)

lemma digit_not_sign: "isDigit c \<Longrightarrow> c \<noteq> CHR ''-'' \<and> c \<noteq> CHR ''+'' \<and> c \<noteq> CHR ''x''"
  by (auto simp: isDigit_def)

lemma parseInt_digits:
  assumes "ds \<noteq> []" and "\<forall>c\<in>set ds. isDigit c"
  shows "parseInt ds = Fin (digitsValue ds)"
proof -
  from assms obtain c cs where ds: "ds = c # cs" by (cases ds) auto
  with assms have c: "isDigit c" by simp
  have drop: "dropWhile isWhiteSpace ds = ds"
    using c ds digit_not_space by simp
  have tw: "takeWhile isDigit ds = ds"
    using assms(2) by simp
  show ?thesis
    unfolding parseInt_def drop
    using digit_not_sign [OF c] tw assms(1) by (simp add: ds)
qed

lemma parseInt_showNat: "parseInt (showNat n) = Fin (int n)"
  by (simp add: parseInt_digits showNat_nonempty showNat_digits digitsValue_showNat)

lemma split_no_sep: "sep \<notin> set a \<Longrightarrow> split sep a = [a]"
  by (induction a) auto

lemma split_at_sep: "sep \<notin> set a \<Longrightarrow> split sep (a @ sep # b) = a # split sep b"
  by (induction a) auto

lemma x_not_in_showNat: "CHR ''x'' \<notin> set (showNat n)"
  using showNat_digits [of n] digit_not_sign by blast

lemma split_resolutionString: "split CHR ''x'' (resolutionString w h) = [showNat w, showNat h]"
  by (simp add: resolutionString_def split_at_sep split_no_sep x_not_in_showNat)

lemma dims_resolutionString: "dims (resolutionString w h) = Some (int w, int h)"
  by (simp add: dims_def split_resolutionString parseInt_showNat)

lemma wellFormed_resolutionString: "wellFormed (resolutionString w h)"
  by (simp add: wellFormed_def dims_resolutionString)

lemma score_resolutionString: "score (int w) (int h) (resolutionString w h) = 0"
  by (simp add: score_def dims_resolutionString)

lemma score_nonneg: "0 \<le> score tw th v"
  by (simp add: score_def split: option.split)

subsection \<open>The score array, its minimum and the first index of the minimum\<close>

lemma weight_dims:
  assumes "dims v = Some (w, h)"
  shows "weight \<lparr>width = Fin tw, height = Fin th\<rparr> (map parseInt (split CHR ''x'' v))
           = Fin \<bar>(tw - w) * 2 + (th - h) * 4\<bar>"
proof -
  from assms obtain rest where "map parseInt (split CHR ''x'' v) = Fin w # Fin h # rest"
    by (auto simp: dims_def split: list.splits number.splits)
  then show ?thesis
    by (simp add: weight_def component_def js_sub_def)
qed

lemma weight_score:
  "wellFormed v \<Longrightarrow>
     weight \<lparr>width = Fin tw, height = Fin th\<rparr> (map parseInt (split CHR ''x'' v)) = Fin (score tw th v)"
  by (auto simp: wellFormed_def score_def weight_dims)

lemma indexArray_score:
  "\<forall>v\<in>set resolutions. wellFormed v \<Longrightarrow>
     indexArray resolutions \<lparr>width = Fin tw, height = Fin th\<rparr> = map (\<lambda>v. Fin (score tw th v)) resolutions"
  by (simp add: indexArray_def numericResolutions_def weight_score)

lemma Math_min_Fin: "ks \<noteq> [] \<Longrightarrow> Math_min (map Fin ks) = Fin (Min (set ks))"
proof (induction ks)
  case Nil
  then show ?case by simp
next
  case (Cons k ks)
  show ?case
  proof (cases "ks = []")
    case True
    then show ?thesis by simp
  next
    case False
    with Cons show ?thesis by simp
  qed
qed

lemma indexOf_from_Fin:
  "m \<in> set ks \<Longrightarrow>
     indexOf_from i (map Fin ks) (Fin m) = i + int (length (takeWhile (\<lambda>k. k \<noteq> m) ks))"
  by (induction ks arbitrary: i) (auto simp: strict_eq_def)

lemma first_index_props:
  "m \<in> set ks \<Longrightarrow>
     length (takeWhile (\<lambda>k. k \<noteq> m) ks) < length ks
   \<and> ks ! length (takeWhile (\<lambda>k. k \<noteq> m) ks) = m
   \<and> (\<forall>j<length (takeWhile (\<lambda>k. k \<noteq> m) ks). ks ! j \<noteq> m)"
proof (induction ks)
  case Nil
  then show ?case by simp
next
  case (Cons k ks)
  show ?case
  proof (cases "k = m")
    case True
    then show ?thesis by simp
  next
    case False
    with Cons.prems have "m \<in> set ks" by simp
    from Cons.IH [OF this] False show ?thesis
      by (simp add: nth_Cons split: nat.split)
  qed
qed

lemma closest_first_min:
  assumes ne: "resolutions \<noteq> []" and wf: "\<forall>v\<in>set resolutions. wellFormed v"
  shows "\<exists>i<length resolutions.
           getClosestResolution resolutions \<lparr>width = Fin tw, height = Fin th\<rparr> = Some (resolutions ! i)
         \<and> (\<forall>j<length resolutions. score tw th (resolutions ! i) \<le> score tw th (resolutions ! j))
         \<and> (\<forall>j<i. score tw th (resolutions ! i) < score tw th (resolutions ! j))"
proof -
  define ks where "ks = map (score tw th) resolutions"
  define m where "m = Min (set ks)"
  define n where "n = length (takeWhile (\<lambda>k. k \<noteq> m) ks)"
  have ks_ne: "ks \<noteq> []" using ne by (simp add: ks_def)
  have len: "length ks = length resolutions" by (simp add: ks_def)
  have m_in: "m \<in> set ks" unfolding m_def using ks_ne by (simp add: Min_in)
  have m_le: "\<forall>k\<in>set ks. m \<le> k" unfolding m_def by simp
  have n_lt: "n < length ks" and n_at: "ks ! n = m" and n_first: "\<forall>j<n. ks ! j \<noteq> m"
    using first_index_props [OF m_in] by (simp_all add: n_def)
  have ia: "indexArray resolutions \<lparr>width = Fin tw, height = Fin th\<rparr> = map Fin ks"
    using indexArray_score [OF wf] by (simp add: ks_def)
  have "getClosestResolution resolutions \<lparr>width = Fin tw, height = Fin th\<rparr>
          = at_index resolutions (int n)"
    by (simp add: getClosestResolution_def ia Math_min_Fin [OF ks_ne] indexOf_def
        indexOf_from_Fin [OF m_in [unfolded m_def]] n_def m_def)
  then have res: "getClosestResolution resolutions \<lparr>width = Fin tw, height = Fin th\<rparr>
          = Some (resolutions ! n)"
    using n_lt len by (simp add: at_index_def)
  have sc: "\<And>j. j < length resolutions \<Longrightarrow> score tw th (resolutions ! j) = ks ! j"
    by (simp add: ks_def)
  have le: "\<forall>j<length resolutions. score tw th (resolutions ! n) \<le> score tw th (resolutions ! j)"
    using m_le n_at n_lt len sc by (metis nth_mem)
  have lt: "\<forall>j<n. score tw th (resolutions ! n) < score tw th (resolutions ! j)"
  proof (intro allI impI)
    fix j assume j: "j < n"
    then have jl: "j < length resolutions" using n_lt len by simp
    from j n_first have "ks ! j \<noteq> m" by simp
    moreover have "m \<le> ks ! j" using m_le jl len by (metis nth_mem)
    ultimately have "m < ks ! j" by simp
    then show "score tw th (resolutions ! n) < score tw th (resolutions ! j)"
      using sc jl n_lt len n_at by simp
  qed
  from n_lt len res le lt show ?thesis by auto
qed

text \<open>
  C5. \<open>getClosestResolution\<close> scores a candidate that parses to \<open>(w, h)\<close> as
  \<open>abs((target.width - w) * 2 + (target.height - h) * 4)\<close>, and on a non-empty list of
  candidates that parse it returns the first candidate whose score is the minimum: no
  candidate scores less, and every earlier candidate scores more. For the target
  1920 x 1080 and the list \<open>["1920x1080", "1080x1920"]\<close> the result is \<open>"1920x1080"\<close>.
\<close>

theorem getClosestResolution_first_minimum:
  "(resolutions \<noteq> [] \<and> (\<forall>v\<in>set resolutions. wellFormed v) \<longrightarrow>
      (\<forall>i<length resolutions. \<forall>w h. dims (resolutions ! i) = Some (w, h) \<longrightarrow>
         indexArray resolutions \<lparr>width = Fin tw, height = Fin th\<rparr> ! i
           = Fin \<bar>(tw - w) * 2 + (th - h) * 4\<bar>
         \<and> score tw th (resolutions ! i) = \<bar>(tw - w) * 2 + (th - h) * 4\<bar>)
    \<and> (\<exists>i<length resolutions.
          getClosestResolution resolutions \<lparr>width = Fin tw, height = Fin th\<rparr> = Some (resolutions ! i)
        \<and> (\<forall>j<length resolutions. score tw th (resolutions ! i) \<le> score tw th (resolutions ! j))
        \<and> (\<forall>j<i. score tw th (resolutions ! i) < score tw th (resolutions ! j))))
   \<and> getClosestResolution [''1920x1080'', ''1080x1920''] \<lparr>width = Fin 1920, height = Fin 1080\<rparr>
       = Some ''1920x1080''"
proof (intro conjI impI)
  assume h: "resolutions \<noteq> [] \<and> (\<forall>v\<in>set resolutions. wellFormed v)"
  show "\<forall>i<length resolutions. \<forall>w h. dims (resolutions ! i) = Some (w, h) \<longrightarrow>
         indexArray resolutions \<lparr>width = Fin tw, height = Fin th\<rparr> ! i
           = Fin \<bar>(tw - w) * 2 + (th - h) * 4\<bar>
         \<and> score tw th (resolutions ! i) = \<bar>(tw - w) * 2 + (th - h) * 4\<bar>"
    using h by (simp add: indexArray_score score_def)
next
  assume h: "resolutions \<noteq> [] \<and> (\<forall>v\<in>set resolutions. wellFormed v)"
  then show "\<exists>i<length resolutions.
          getClosestResolution resolutions \<lparr>width = Fin tw, height = Fin th\<rparr> = Some (resolutions ! i)
        \<and> (\<forall>j<length resolutions. score tw th (resolutions ! i) \<le> score tw th (resolutions ! j))
        \<and> (\<forall>j<i. score tw th (resolutions ! i) < score tw th (resolutions ! j))"
    using closest_first_min by blast
next
  show "getClosestResolution [''1920x1080'', ''1080x1920''] \<lparr>width = Fin 1920, height = Fin 1080\<rparr>
       = Some ''1920x1080''"
    by code_simp
qed

theorem getClosestResolution_first_minimum_witness:
  "wellFormed ''1920x1080'' \<and> wellFormed ''1080x1920''
   \<and> indexArray [''1920x1080'', ''1080x1920''] \<lparr>width = Fin 1920, height = Fin 1080\<rparr> ! 1 = Fin 1680
   \<and> (\<exists>i<length [''1920x1080'', ''1080x1920''].
          getClosestResolution [''1920x1080'', ''1080x1920''] \<lparr>width = Fin 1920, height = Fin 1080\<rparr>
            = Some ([''1920x1080'', ''1080x1920''] ! i)
        \<and> (\<forall>j<length [''1920x1080'', ''1080x1920''].
              score 1920 1080 ([''1920x1080'', ''1080x1920''] ! i)
                \<le> score 1920 1080 ([''1920x1080'', ''1080x1920''] ! j))
        \<and> (\<forall>j<i. score 1920 1080 ([''1920x1080'', ''1080x1920''] ! i)
                  < score 1920 1080 ([''1920x1080'', ''1080x1920''] ! j)))"
proof -
  have wf1: "wellFormed ''1920x1080''" by code_simp
  have wf2: "wellFormed ''1080x1920''" by code_simp
  have d: "dims ([''1920x1080'', ''1080x1920''] ! 1) = Some (1080, 1920)"
    by code_simp
  have hyp: "[''1920x1080'', ''1080x1920''] \<noteq> [] \<and> (\<forall>v\<in>set [''1920x1080'', ''1080x1920'']. wellFormed v)"
    using wf1 wf2 by simp
  note t = getClosestResolution_first_minimum
    [of "[''1920x1080'', ''1080x1920'']" 1920 1080, THEN conjunct1, THEN mp, OF hyp]
  have one: "1 < length [''1920x1080'', ''1080x1920'']" by simp
  from t [THEN conjunct1, rule_format, OF one d]
  have b: "indexArray [''1920x1080'', ''1080x1920''] \<lparr>width = Fin 1920, height = Fin 1080\<rparr> ! 1 = Fin 1680"
    by simp
  show ?thesis
    by (rule conjI [OF wf1 conjI [OF wf2 conjI [OF b t [THEN conjunct2]]]])
qed

text \<open>
  On a non-empty list of resolution strings that parse, \<open>getClosestResolution\<close> returns
  an element of the list. When the target's own string \<open>"WxH"\<close> is in the list, the score
  of the element returned is 0, and no earlier element has score 0.
\<close>

lemma getClosestResolution_member:
  assumes "resolutions \<noteq> []" and "\<forall>v\<in>set resolutions. wellFormed v"
  shows "\<exists>i<length resolutions.
           getClosestResolution resolutions \<lparr>width = Fin (int w), height = Fin (int h)\<rparr>
             = Some (resolutions ! i)
         \<and> resolutions ! i \<in> set resolutions
         \<and> (resolutionString w h \<in> set resolutions \<longrightarrow>
              score (int w) (int h) (resolutions ! i) = 0
            \<and> (\<forall>j<i. score (int w) (int h) (resolutions ! j) \<noteq> 0)
            \<and> ((\<forall>v\<in>set resolutions. score (int w) (int h) v = 0 \<longrightarrow> v = resolutionString w h)
                 \<longrightarrow> resolutions ! i = resolutionString w h))"
proof -
  from closest_first_min [OF assms, of "int w" "int h"]
  obtain i where i: "i < length resolutions"
    and res: "getClosestResolution resolutions \<lparr>width = Fin (int w), height = Fin (int h)\<rparr>
                = Some (resolutions ! i)"
    and le: "\<forall>j<length resolutions.
               score (int w) (int h) (resolutions ! i) \<le> score (int w) (int h) (resolutions ! j)"
    and lt: "\<forall>j<i. score (int w) (int h) (resolutions ! i) < score (int w) (int h) (resolutions ! j)"
    by blast
  have mem: "resolutions ! i \<in> set resolutions" using i by simp
  have exact: "score (int w) (int h) (resolutions ! i) = 0
            \<and> (\<forall>j<i. score (int w) (int h) (resolutions ! j) \<noteq> 0)
            \<and> ((\<forall>v\<in>set resolutions. score (int w) (int h) v = 0 \<longrightarrow> v = resolutionString w h)
                 \<longrightarrow> resolutions ! i = resolutionString w h)"
    if "resolutionString w h \<in> set resolutions"
  proof -
    from that obtain k where k: "k < length resolutions" "resolutions ! k = resolutionString w h"
      by (auto simp: in_set_conv_nth)
    with le have "score (int w) (int h) (resolutions ! i) \<le> 0"
      using score_resolutionString [of w h] by (metis)
    with score_nonneg [of "int w" "int h" "resolutions ! i"]
    have z: "score (int w) (int h) (resolutions ! i) = 0" by simp
    from lt z have "\<forall>j<i. score (int w) (int h) (resolutions ! j) \<noteq> 0" by auto
    with z mem show ?thesis by blast
  qed
  from i res mem exact show ?thesis by blast
qed

text \<open>
  C3. \<open>getClosestResolution\<close> is to find the resolution of the list that matches the
  target most closely, so that it returns a member of the list, and the target's own
  string \<open>"WxH"\<close> when that is in the list. The code misses an exact match: it adds the
  signed differences of width and height before it takes the absolute value, so that they
  can cancel. The resolution 1152 x 864 has score \<open>|128 * 2 + (-64) * 4| = 0\<close> against the
  target 1280 x 800, the same score as the target itself; with \<open>"1152x864"\<close> listed before
  \<open>"1280x800"\<close>, both of which parse, the code returns \<open>"1152x864"\<close> although the
  target's own string is in the list.
\<close>

theorem getClosestResolution_misses_exact_match:
  "wellFormed ''1152x864'' \<and> wellFormed ''1280x800''
   \<and> resolutionString 1280 800 = ''1280x800''
   \<and> resolutionString 1280 800 \<in> set [''1152x864'', ''1280x800'']
   \<and> score 1280 800 ''1152x864'' = 0
   \<and> score 1280 800 ''1280x800'' = 0
   \<and> getClosestResolution [''1152x864'', ''1280x800''] \<lparr>width = Fin 1280, height = Fin 800\<rparr>
       = Some ''1152x864''
   \<and> getClosestResolution [''1152x864'', ''1280x800''] \<lparr>width = Fin 1280, height = Fin 800\<rparr>
       \<noteq> Some (resolutionString 1280 800)"
  by code_simp

text \<open>
  C4. On the empty list \<open>getClosestResolution\<close> raises nothing: \<open>Math.min()\<close> is
  \<open>Infinity\<close>, \<open>indexOf\<close> answers \<open>-1\<close>, and the function returns \<open>undefined\<close>, which
  \<open>setOBSVideoResolution\<close> then writes as the resolution.
\<close>

theorem getClosestResolution_empty:
  "getClosestResolution [] target = None
   \<and> setOBSVideoResolution
        (eng\<lparr>availableValues := (\<lambda>category subcategory parameter. Some [])\<rparr>) target paramString s
       = (Inr (), emit (SetSetting ''Video'' paramString Undefined) s)"
  by (simp add: getClosestResolution_def indexArray_def numericResolutions_def indexOf_def
      at_index_def setOBSVideoResolution_def getAvailableValues_def optionalString_def
      setSetting_def)

section \<open>The signal protocol\<close>

lemma shiftOrTimeout_received:
  "fst (shiftOrTimeout n left signals)
     = (if n < length signals \<and> arrivalTime n signals < left
        then Some (snd (signals ! n)) else None)"
proof (induction signals arbitrary: n left)
  case Nil
  show ?case by (simp add: arrivalTime_def)
next
  case (Cons a rest)
  obtain delay x where a: "a = (delay, x)" by (cases a)
  show ?case
  proof (cases n)
    case 0
    then show ?thesis by (simp add: a arrivalTime_def)
  next
    case (Suc k)
    show ?thesis
      using Cons.IH [of k "left - delay"] by (auto simp add: a Suc arrivalTime_def)
  qed
qed

lemma events_race: "events (snd (race v s)) = events s @ waitEvents v"
  by (simp add: race_def emit_def waitEvents_def timeoutReason_def Let_def
      split: list.split prod.split option.split)

lemma race_received:
  "fst (race v s)
     = (case nextSignal s of
          Some x \<Rightarrow> Inr x
        | None \<Rightarrow> Inl (Rejected (''OBS didn't signal '' @ v @ '' in time'')))"
proof (cases "waitQueue s")
  case (Cons x queue)
  then show ?thesis by (simp add: race_def nextSignal_def emit_def Let_def)
next
  case Nil
  obtain r n rest where st: "shiftOrTimeout (abandonedShifts s) 5000 (pending s) = (r, n, rest)"
    by (cases "shiftOrTimeout (abandonedShifts s) 5000 (pending s)")
  from shiftOrTimeout_received [of "abandonedShifts s" 5000 "pending s"] st
  have r: "r = (if abandonedShifts s < length (pending s)
                   \<and> arrivalTime (abandonedShifts s) (pending s) < 5000
                then Some (snd (pending s ! abandonedShifts s)) else None)"
    by simp
  show ?thesis
    using Nil st
    by (simp add: race_def nextSignal_def emit_def Let_def timeoutReason_def r [symmetric]
        split: option.split)
qed

lemma assertNextSignal_received:
  "fst (assertNextSignal v s)
     = (case nextSignal s of
          None \<Rightarrow> Inl (Rejected (''OBS didn't signal '' @ v @ '' in time''))
        | Some x \<Rightarrow>
            if type x \<noteq> ''recording'' then Inl (Error ''OBS behaved unexpectedly (2)'')
            else if signal x \<noteq> v then Inl (Error ''OBS behaved unexpectedly (3)'')
            else Inr Undefined)"
  using race_received [of v s]
  by (cases "race v s"; cases "fst (race v s)"; cases "nextSignal s")
     (auto simp: assertNextSignal_def andThen_def)

lemma events_assertNextSignal: "events (snd (assertNextSignal v s)) = events s @ waitEvents v"
proof -
  have "snd (assertNextSignal v s) = snd (race v s)"
    by (cases "race v s" rule: prod.exhaust; cases "fst (race v s)")
       (auto simp: assertNextSignal_def andThen_def)
  then show ?thesis by (simp add: events_race)
qed

lemma assertNextSignal_results:
  "fst (assertNextSignal v t) = Inr Undefined
   \<or> fst (assertNextSignal v t) = Inl (Rejected (''OBS didn't signal '' @ v @ '' in time''))
   \<or> fst (assertNextSignal v t) = Inl (Error ''OBS behaved unexpectedly (2)'')
   \<or> fst (assertNextSignal v t) = Inl (Error ''OBS behaved unexpectedly (3)'')"
  by (simp add: assertNextSignal_received split: option.split)

lemma stop_cases:
  fixes s :: obs
  defines "w1 \<equiv> assertNextSignal ''stopping'' (emit StopRecording s)"
  defines "w2 \<equiv> assertNextSignal ''stop'' (snd w1)"
  defines "w3 \<equiv> assertNextSignal ''wrote'' (snd w2)"
  shows "isl (fst w1) \<Longrightarrow> stop s = w1"
    and "\<not> isl (fst w1) \<Longrightarrow> isl (fst w2) \<Longrightarrow> stop s = w2"
    and "\<not> isl (fst w1) \<Longrightarrow> \<not> isl (fst w2) \<Longrightarrow> stop s = w3"
proof -
  have st: "stop s = andThen w1 (\<lambda>_ s1. andThen (assertNextSignal ''stop'' s1)
               (\<lambda>_ s2. andThen (assertNextSignal ''wrote'' s2) (\<lambda>_ s3. (Inr Undefined, s3))))"
    by (simp add: stop_def w1_def)
  show "isl (fst w1) \<Longrightarrow> stop s = w1"
    unfolding st by (cases w1; cases "fst w1") (auto simp: andThen_def)
  show "\<not> isl (fst w1) \<Longrightarrow> isl (fst w2) \<Longrightarrow> stop s = w2"
    unfolding st w2_def by (cases w1; cases "fst w1"; cases "assertNextSignal ''stop'' (snd w1)";
        cases "fst (assertNextSignal ''stop'' (snd w1))") (auto simp: andThen_def)
  show "\<not> isl (fst w1) \<Longrightarrow> \<not> isl (fst w2) \<Longrightarrow> stop s = w3"
    unfolding st w3_def w2_def
    using assertNextSignal_results [of "''wrote''" "snd (assertNextSignal ''stop'' (snd w1))"]
    by (cases w1; cases "fst w1"; cases "assertNextSignal ''stop'' (snd w1)";
        cases "fst (assertNextSignal ''stop'' (snd w1))";
        cases "assertNextSignal ''wrote'' (snd (assertNextSignal ''stop'' (snd w1)))";
        cases "fst (assertNextSignal ''wrote'' (snd (assertNextSignal ''stop'' (snd w1))))")
       (auto simp: andThen_def)
qed

lemma nextSignal_emit: "nextSignal (emit e s) = nextSignal s"
  by (simp add: nextSignal_def emit_def split: list.split)

lemma nextSignal_None_rejects:
  "nextSignal s = None \<Longrightarrow>
     fst (assertNextSignal v (emit e s)) = Inl (Rejected (''OBS didn't signal '' @ v @ '' in time''))"
  by (simp add: assertNextSignal_received nextSignal_emit)

lemma race_flag:
  "race v (s\<lparr>obsInitialized := b\<rparr>) = (fst (race v s), (snd (race v s))\<lparr>obsInitialized := b\<rparr>)"
  by (simp add: race_def emit_def Let_def split: list.split prod.split option.split)

lemma assertNextSignal_flag:
  "assertNextSignal v (s\<lparr>obsInitialized := b\<rparr>)
     = (fst (assertNextSignal v s), (snd (assertNextSignal v s))\<lparr>obsInitialized := b\<rparr>)"
  by (cases "race v s"; cases "fst (race v s)")
     (auto simp: assertNextSignal_def andThen_def race_flag)

lemma stop_flag:
  "stop (s\<lparr>obsInitialized := b\<rparr>) = (fst (stop s), (snd (stop s))\<lparr>obsInitialized := b\<rparr>)"
proof -
  have em: "emit StopRecording (s\<lparr>obsInitialized := b\<rparr>) = (emit StopRecording s)\<lparr>obsInitialized := b\<rparr>"
    by (simp add: emit_def)
  define w1 where "w1 = assertNextSignal ''stopping'' (emit StopRecording s)"
  define w2 where "w2 = assertNextSignal ''stop'' (snd w1)"
  define w3 where "w3 = assertNextSignal ''wrote'' (snd w2)"
  show ?thesis
    unfolding stop_def em assertNextSignal_flag
    by (cases "assertNextSignal ''stopping'' (emit StopRecording s)";
        cases "fst (assertNextSignal ''stopping'' (emit StopRecording s))";
        cases "assertNextSignal ''stop'' (snd (assertNextSignal ''stopping'' (emit StopRecording s)))";
        cases "fst (assertNextSignal ''stop'' (snd (assertNextSignal ''stopping'' (emit StopRecording s))))";
        cases "assertNextSignal ''wrote'' (snd (assertNextSignal ''stop'' (snd (assertNextSignal ''stopping'' (emit StopRecording s)))))";
        cases "fst (assertNextSignal ''wrote'' (snd (assertNextSignal ''stop'' (snd (assertNextSignal ''stopping'' (emit StopRecording s))))))")
       (auto simp: andThen_def assertNextSignal_flag)
qed

lemma stop_events_prefix:
  "\<exists>later. events (snd (stop s)) = events s @ StopRecording # waitEvents ''stopping'' @ later"
proof -
  define w1 where "w1 = assertNextSignal ''stopping'' (emit StopRecording s)"
  define w2 where "w2 = assertNextSignal ''stop'' (snd w1)"
  define w3 where "w3 = assertNextSignal ''wrote'' (snd w2)"
  have e1: "events (snd w1) = events s @ StopRecording # waitEvents ''stopping''"
    by (simp add: w1_def events_assertNextSignal emit_def)
  have e2: "events (snd w2) = events s @ StopRecording # waitEvents ''stopping'' @ waitEvents ''stop''"
    by (simp add: w2_def events_assertNextSignal e1)
  have e3: "events (snd w3)
      = events s @ StopRecording # waitEvents ''stopping'' @ waitEvents ''stop'' @ waitEvents ''wrote''"
    by (simp add: w3_def events_assertNextSignal e2)
  consider "stop s = w1" | "stop s = w2" | "stop s = w3"
    using stop_cases [of s] unfolding w1_def w2_def w3_def by blast
  then show ?thesis
  proof cases
    case 1 then show ?thesis using e1 by simp
  next
    case 2 then show ?thesis using e2 by simp
  next
    case 3 then show ?thesis using e3 by simp
  qed
qed

lemma stop_error_kinds:
  "fst (stop s) \<noteq> Inl (Error ''OBS not initialised'')"
proof -
  define w1 where "w1 = assertNextSignal ''stopping'' (emit StopRecording s)"
  define w2 where "w2 = assertNextSignal ''stop'' (snd w1)"
  define w3 where "w3 = assertNextSignal ''wrote'' (snd w2)"
  consider "stop s = w1" | "stop s = w2" | "stop s = w3"
    using stop_cases [of s] unfolding w1_def w2_def w3_def by blast
  then show ?thesis
  proof cases
    case 1 then show ?thesis
      using assertNextSignal_results [of "''stopping''" "emit StopRecording s"]
      by (auto simp: w1_def)
  next
    case 2 then show ?thesis
      using assertNextSignal_results [of "''stop''" "snd w1"]
      by (auto simp: w2_def)
  next
    case 3 then show ?thesis
      using assertNextSignal_results [of "''wrote''" "snd w2"]
      by (auto simp: w3_def)
  qed
qed

section \<open>Sources and channels\<close>

subsection \<open>Clearing the channels\<close>

lemmas prim_defs = emit_def setSetting_def InputFactory_create_def SceneFactory_create_def
  modify_def scene_add_def sceneItem_setScale_def source_update_def source_save_def
  source_release_def source_remove_def Global_setOutputSource_def Global_getOutputSource_def
  watchVideoSourceSize_def

lemma clearSource_outputSources:
  "outputSources (clearSource c s) i = (if i = c then None else outputSources s i)"
  by (simp add: clearSource_def prim_defs split: option.split)

lemma clearSource_frame:
  "sources (clearSource c s) = sources s"
  "nextHandle (clearSource c s) = nextHandle s"
  "timerVideoSourceSize (clearSource c s) = timerVideoSourceSize s"
  by (simp_all add: clearSource_def prim_defs split: option.split)

lemma clearSource_events: "events (clearSource c s) = events s @ clearedAt s c"
  by (simp add: clearSource_def clearedAt_def prim_defs split: option.split)

lemma fold_clearSource_outputSources:
  "outputSources (fold clearSource cs s) i = (if i \<in> set cs then None else outputSources s i)"
  by (induction cs arbitrary: s) (auto simp: clearSource_outputSources)

lemma fold_clearSource_frame:
  "sources (fold clearSource cs s) = sources s"
  "nextHandle (fold clearSource cs s) = nextHandle s"
  "timerVideoSourceSize (fold clearSource cs s) = timerVideoSourceSize s"
  by (induction cs arbitrary: s) (simp_all add: clearSource_frame)

lemma clearedAt_cong:
  "outputSources s c = outputSources t c \<Longrightarrow> clearedAt s c = clearedAt t c"
  by (simp add: clearedAt_def)

lemma fold_clearSource_events:
  "distinct cs \<Longrightarrow> events (fold clearSource cs s) = events s @ concat (map (clearedAt s) cs)"
proof (induction cs arbitrary: s)
  case Nil
  then show ?case by simp
next
  case (Cons c cs)
  have same: "clearedAt (clearSource c s) x = clearedAt s x" if "x \<in> set cs" for x
  proof -
    from that Cons.prems have "x \<noteq> c" by auto
    then show ?thesis
      by (intro clearedAt_cong) (simp add: clearSource_outputSources)
  qed
  have eq: "map (clearedAt (clearSource c s)) cs = map (clearedAt s) cs"
    by (rule map_cong [OF refl]) (rule same)
  have d: "distinct cs" using Cons.prems by simp
  have "events (fold clearSource (c # cs) s) = events (fold clearSource cs (clearSource c s))"
    by simp
  also have "\<dots> = events (clearSource c s) @ concat (map (clearedAt (clearSource c s)) cs)"
    by (rule Cons.IH [OF d])
  also have "\<dots> = (events s @ clearedAt s c) @ concat (map (clearedAt s) cs)"
    unfolding eq clearSource_events ..
  finally show ?case by simp
qed

lemma set_clearedChannels: "i \<in> set clearedChannels \<longleftrightarrow> 1 \<le> i \<and> i < 64"
  unfolding clearedChannels_def by (simp del: upt_rec_numeral)

lemma distinct_clearedChannels: "distinct clearedChannels"
  unfolding clearedChannels_def by (simp del: upt_rec_numeral)

lemma clearSources_outputSources:
  "outputSources (clearSources s) i = (if 1 \<le> i \<and> i < 64 then None else outputSources s i)"
  by (simp add: clearSources_def setSetting_def emit_def fold_clearSource_outputSources
      set_clearedChannels)

lemma clearSources_frame:
  "sources (clearSources s) = sources s"
  "nextHandle (clearSources s) = nextHandle s"
  "timerVideoSourceSize (clearSources s) = timerVideoSourceSize s"
  by (simp_all add: clearSources_def setSetting_def emit_def fold_clearSource_frame)

lemma clearSources_events: "events (clearSources s) = events s @ clearEvents s"
  by (simp add: clearSources_def clearEvents_def setSetting_def emit_def fold_clearSource_events
      distinct_clearedChannels)

lemma clearEvents_cong:
  assumes "outputSources s = outputSources t"
  shows "clearEvents s = clearEvents t"
proof -
  have "clearedAt s = clearedAt t"
    by (rule ext) (simp add: clearedAt_def assms)
  then show ?thesis by (simp add: clearEvents_def)
qed

lemma clearEvents_no_create: "\<forall>e\<in>set (clearEvents s). \<not> createsSource e"
  by (auto simp: clearEvents_def clearedAt_def split: option.splits)

lemma clearEvents_releases:
  assumes "1 \<le> i" and "i < 64" and "outputSources s i = Some h"
  shows "SetOutputSource i None \<in> set (clearEvents s)"
    and "Release h \<in> set (clearEvents s)" and "Remove h \<in> set (clearEvents s)"
proof -
  have "i \<in> set clearedChannels" using assms(1,2) by (simp add: set_clearedChannels)
  moreover have "clearedAt s i = [SetSetting ''Output'' (trackName i) (Str []),
      SetOutputSource i None, Release h, Remove h]"
    using assms(3) by (simp add: clearedAt_def)
  ultimately have "set [SetSetting ''Output'' (trackName i) (Str []),
      SetOutputSource i None, Release h, Remove h] \<subseteq> set (clearEvents s)"
    unfolding clearEvents_def by (metis (no_types, lifting) UN_upper image_eqI le_supI1 set_append
        set_concat set_map)
  then show "SetOutputSource i None \<in> set (clearEvents s)"
    and "Release h \<in> set (clearEvents s)" and "Remove h \<in> set (clearEvents s)"
    by simp_all
qed

subsection \<open>Adding the audio sources\<close>

lemma addAudioSource_fields:
  "nextHandle (addAudioSource ty nm sel d c s) = nextHandle s + 1"
  "sources (addAudioSource ty nm sel d c s) = (sources s)(nextHandle s \<mapsto> audioSource ty nm sel d c)"
  "outputSources (addAudioSource ty nm sel d c s) = (outputSources s)(c \<mapsto> nextHandle s)"
  "timerVideoSourceSize (addAudioSource ty nm sel d c s) = timerVideoSourceSize s"
  "events (addAudioSource ty nm sel d c s)
     = events s @ [CreateInput (nextHandle s) ty nm [(''device_id'', Str (id d))],
                   SetSetting ''Output'' (trackName c) (Str (name d)),
                   SetOutputSource c (Some (nextHandle s)), Release (nextHandle s)]"
  by (simp_all add: addAudioSource_def audioSource_def prim_defs Let_def)

lemma addAudioSources_fst: "fst (addAudioSources ty nm sel ds c s) = c + length ds"
  by (induction ds arbitrary: c s) simp_all

lemma addAudioSources_nextHandle:
  "nextHandle (snd (addAudioSources ty nm sel ds c s)) = nextHandle s + length ds"
  by (induction ds arbitrary: c s) (simp_all add: addAudioSource_fields)

lemma addAudioSources_timer:
  "timerVideoSourceSize (snd (addAudioSources ty nm sel ds c s)) = timerVideoSourceSize s"
  by (induction ds arbitrary: c s) (simp_all add: addAudioSource_fields)

lemma addAudioSources_outputSources:
  "outputSources (snd (addAudioSources ty nm sel ds c s)) i
     = (if c \<le> i \<and> i < c + length ds then Some (nextHandle s + (i - c)) else outputSources s i)"
proof (induction ds arbitrary: c s)
  case Nil
  then show ?case by auto
next
  case (Cons d ds)
  show ?case
    by (simp add: Cons.IH addAudioSource_fields) (auto simp: Suc_diff_le)
qed

lemma addAudioSources_sources:
  "sources (snd (addAudioSources ty nm sel ds c s)) h
     = (if nextHandle s \<le> h \<and> h < nextHandle s + length ds
        then Some (audioSource ty nm sel (ds ! (h - nextHandle s)) (c + (h - nextHandle s)))
        else sources s h)"
proof (induction ds arbitrary: c s)
  case Nil
  then show ?case by auto
next
  case (Cons d ds)
  consider "h < nextHandle s" | "h = nextHandle s"
    | "nextHandle s < h" "h < nextHandle s + Suc (length ds)"
    | "nextHandle s + Suc (length ds) \<le> h"
    by linarith
  then show ?case
  proof cases
    case 1
    then show ?thesis by (simp add: Cons.IH addAudioSource_fields)
  next
    case 2
    then show ?thesis
      using Cons.IH [of "Suc c" "addAudioSource ty nm sel d c s"]
      by (simp add: addAudioSource_fields)
  next
    case 3
    then have e1: "h - nextHandle s = Suc (h - Suc (nextHandle s))"
      and e2: "Suc c + (h - Suc (nextHandle s)) = c + (h - nextHandle s)"
      by arith+
    have ih: "sources (snd (addAudioSources ty nm sel ds (Suc c) (addAudioSource ty nm sel d c s))) h
                = Some (audioSource ty nm sel (ds ! (h - Suc (nextHandle s)))
                          (Suc c + (h - Suc (nextHandle s))))"
      using Cons.IH [of "Suc c" "addAudioSource ty nm sel d c s"] 3
      by (simp add: addAudioSource_fields)
    have tgt: "(d # ds) ! (h - nextHandle s) = ds ! (h - Suc (nextHandle s))"
      by (subst e1) simp
    have main: "sources (snd (addAudioSources ty nm sel (d # ds) c s)) h
            = Some (audioSource ty nm sel ((d # ds) ! (h - nextHandle s)) (c + (h - nextHandle s)))"
      unfolding tgt e2 [symmetric] using ih by simp
    have rng: "nextHandle s \<le> h \<and> h < nextHandle s + length (d # ds)"
      using 3 by simp
    show ?thesis
      unfolding if_P [OF rng] by (fact main)
  next
    case 4
    then show ?thesis by (simp add: Cons.IH addAudioSource_fields)
  qed
qed

lemma addAudioSources_events:
  "\<exists>later. events (snd (addAudioSources ty nm sel ds c s)) = events s @ later"
proof (induction ds arbitrary: c s)
  case Nil
  then show ?case by simp
next
  case (Cons d ds)
  from Cons.IH [of "c + 1" "addAudioSource ty nm sel d c s"]
  show ?case by (auto simp: addAudioSource_fields)
qed

lemma getAudioDevices_fields:
  "fst (getAudioDevices eng ty nm s) = deviceItems eng ty"
  "nextHandle (snd (getAudioDevices eng ty nm s)) = nextHandle s + 1"
  "outputSources (snd (getAudioDevices eng ty nm s)) = outputSources s"
  "sources (snd (getAudioDevices eng ty nm s)) = (sources s)(nextHandle s \<mapsto> dummySource ty nm)"
  "timerVideoSourceSize (snd (getAudioDevices eng ty nm s)) = timerVideoSourceSize s"
  "events (snd (getAudioDevices eng ty nm s))
     = events s @ [CreateInput (nextHandle s) ty nm [(''device_id'', Str ''does_not_exist'')],
                   Release (nextHandle s)]"
  by (simp_all add: getAudioDevices_def dummySource_def prim_defs Let_def)

lemma getAvailableAudioInputDevices_fields:
  "fst (getAvailableAudioInputDevices eng s) = availableInputs eng"
  "nextHandle (snd (getAvailableAudioInputDevices eng s)) = nextHandle s + 1"
  "outputSources (snd (getAvailableAudioInputDevices eng s)) = outputSources s"
  "sources (snd (getAvailableAudioInputDevices eng s))
     = (sources s)(nextHandle s \<mapsto> dummySource ''wasapi_input_capture'' ''mic-audio'')"
  "timerVideoSourceSize (snd (getAvailableAudioInputDevices eng s)) = timerVideoSourceSize s"
  "events (snd (getAvailableAudioInputDevices eng s))
     = events s @ [CreateInput (nextHandle s) ''wasapi_input_capture'' ''mic-audio''
                     [(''device_id'', Str ''does_not_exist'')],
                   Release (nextHandle s)]"
  by (simp_all add: getAvailableAudioInputDevices_def availableInputs_def split_def
      getAudioDevices_fields deviceItems_def)

lemma getAvailableAudioOutputDevices_fields:
  "fst (getAvailableAudioOutputDevices eng s) = availableOutputs eng"
  "nextHandle (snd (getAvailableAudioOutputDevices eng s)) = nextHandle s + 1"
  "outputSources (snd (getAvailableAudioOutputDevices eng s)) = outputSources s"
  "sources (snd (getAvailableAudioOutputDevices eng s))
     = (sources s)(nextHandle s \<mapsto> dummySource ''wasapi_output_capture'' ''desktop-audio'')"
  "timerVideoSourceSize (snd (getAvailableAudioOutputDevices eng s)) = timerVideoSourceSize s"
  "events (snd (getAvailableAudioOutputDevices eng s))
     = events s @ [CreateInput (nextHandle s) ''wasapi_output_capture'' ''desktop-audio''
                     [(''device_id'', Str ''does_not_exist'')],
                   Release (nextHandle s)]"
  by (simp_all add: getAvailableAudioOutputDevices_def availableOutputs_def split_def
      getAudioDevices_fields deviceItems_def)

lemma setupSources_steps:
  "setupSources eng scene a b s =
     setSetting ''Output'' ''RecTracks''
       (Number (recTracksMask (1 + length (availableInputs eng) + length (availableOutputs eng))))
       (afterOutputs eng scene a b s)"
  by (simp add: setupSources_def afterOutputs_def afterInputs_def afterClear_def Let_def split_def
      getAvailableAudioInputDevices_fields getAvailableAudioOutputDevices_fields
      addAudioSources_fst)

lemma afterClear_fields:
  "nextHandle (afterClear scene s) = nextHandle s"
  "sources (afterClear scene s) = sources s"
  "timerVideoSourceSize (afterClear scene s) = timerVideoSourceSize s"
  "outputSources (afterClear scene s) i
     = (if i = 1 then Some scene else if 1 \<le> i \<and> i < 64 then None else outputSources s i)"
  "events (afterClear scene s)
     = events s @ clearEvents s @ [SetOutputSource 1 (Some scene),
                                   SetSetting ''Output'' ''Track1Name'' (Str ''Mixed: all sources'')]"
  by (simp_all add: afterClear_def setSetting_def emit_def Global_setOutputSource_def
      clearSources_frame clearSources_outputSources clearSources_events)

lemma afterInputs_fields:
  "nextHandle (afterInputs eng scene a s) = nextHandle s + 1 + length (availableInputs eng)"
  "timerVideoSourceSize (afterInputs eng scene a s) = timerVideoSourceSize s"
  "outputSources (afterInputs eng scene a s) i
     = (if 2 \<le> i \<and> i < 2 + length (availableInputs eng) then Some (nextHandle s + 1 + (i - 2))
        else if i = 1 then Some scene else if 1 \<le> i \<and> i < 64 then None else outputSources s i)"
  "sources (afterInputs eng scene a s) h
     = (if nextHandle s + 1 \<le> h \<and> h < nextHandle s + 1 + length (availableInputs eng)
        then Some (audioSource ''wasapi_input_capture'' ''mic-audio'' a
                     (availableInputs eng ! (h - (nextHandle s + 1))) (2 + (h - (nextHandle s + 1))))
        else if h = nextHandle s then Some (dummySource ''wasapi_input_capture'' ''mic-audio'')
        else sources s h)"
  by (simp_all add: afterInputs_def addAudioSources_nextHandle addAudioSources_timer
      addAudioSources_outputSources addAudioSources_sources
      getAvailableAudioInputDevices_fields afterClear_fields)

lemma afterOutputs_fields:
  "nextHandle (afterOutputs eng scene a b s)
     = nextHandle s + 2 + length (availableInputs eng) + length (availableOutputs eng)"
  "timerVideoSourceSize (afterOutputs eng scene a b s) = timerVideoSourceSize s"
  "outputSources (afterOutputs eng scene a b s) i
     = (if 2 + length (availableInputs eng) \<le> i
            \<and> i < 2 + length (availableInputs eng) + length (availableOutputs eng)
        then Some (nextHandle s + 2 + length (availableInputs eng) + (i - (2 + length (availableInputs eng))))
        else outputSources (afterInputs eng scene a s) i)"
  "sources (afterOutputs eng scene a b s) h
     = (if nextHandle s + 2 + length (availableInputs eng) \<le> h
            \<and> h < nextHandle s + 2 + length (availableInputs eng) + length (availableOutputs eng)
        then Some (audioSource ''wasapi_output_capture'' ''desktop-audio'' b
                     (availableOutputs eng ! (h - (nextHandle s + 2 + length (availableInputs eng))))
                     (2 + length (availableInputs eng)
                        + (h - (nextHandle s + 2 + length (availableInputs eng)))))
        else if h = nextHandle s + 1 + length (availableInputs eng)
        then Some (dummySource ''wasapi_output_capture'' ''desktop-audio'')
        else sources (afterInputs eng scene a s) h)"
  by (simp_all add: afterOutputs_def addAudioSources_nextHandle addAudioSources_timer
      addAudioSources_outputSources addAudioSources_sources
      getAvailableAudioOutputDevices_fields afterInputs_fields(1,2))

lemma audioSource_simps:
  "isScene (audioSource ty nm sel d c) = False"
  "muted (audioSource ty nm sel d c) = mutedFor sel d"
  "settings (audioSource ty nm sel d c) = [(''device_id'', Str (id d))]"
  "sourceId (audioSource ty nm sel d c) = ty"
  "audioMixers (audioSource ty nm sel d c) = mixerMask c"
  by (simp_all add: audioSource_def)

lemma trackSource_setupSources_input:
  assumes "k < length (availableInputs eng)"
  shows "trackSource (setupSources eng scene a b s) (2 + k)
           = Some (audioSource ''wasapi_input_capture'' ''mic-audio'' a (availableInputs eng ! k) (2 + k))"
  using assms
  by (simp add: trackSource_def setupSources_steps setSetting_def emit_def
      afterOutputs_fields afterInputs_fields)

lemma trackSource_setupSources_output:
  assumes "k < length (availableOutputs eng)"
  shows "trackSource (setupSources eng scene a b s) (2 + length (availableInputs eng) + k)
           = Some (audioSource ''wasapi_output_capture'' ''desktop-audio'' b
                     (availableOutputs eng ! k) (2 + length (availableInputs eng) + k))"
  using assms
  by (simp add: trackSource_def setupSources_steps setSetting_def emit_def
      afterOutputs_fields afterInputs_fields)

lemma trackSource_setupSources_scene:
  assumes "scene < nextHandle s"
  shows "trackSource (setupSources eng scene a b s) 1 = sources s scene"
  using assms
  by (simp add: trackSource_def setupSources_steps setSetting_def emit_def
      afterOutputs_fields afterInputs_fields)

lemma trackSource_setupSources_cases:
  fixes eng scene a b s
  defines "s' \<equiv> setupSources eng scene a b s"
  defines "ni \<equiv> length (availableInputs eng)"
  defines "no \<equiv> length (availableOutputs eng)"
  assumes i: "2 \<le> i" "i < 2 + ni + no"
  shows "\<exists>src. trackSource s' i = Some src \<and> \<not> isScene src"
proof (cases "i < 2 + ni")
  case True
  with i have "i - 2 < ni" and "i = 2 + (i - 2)" by simp_all
  then show ?thesis
    using trackSource_setupSources_input [of "i - 2" eng scene a b s]
    unfolding s'_def ni_def by (metis audioSource_simps(1))
next
  case False
  with i have "i - 2 - ni < no" and "i = 2 + ni + (i - 2 - ni)" by simp_all
  then show ?thesis
    using trackSource_setupSources_output [of "i - 2 - ni" eng scene a b s]
    unfolding s'_def ni_def no_def by (metis audioSource_simps(1))
qed

lemma outputSources_setupSources_free:
  assumes "2 + length (availableInputs eng) + length (availableOutputs eng) \<le> i" and "i < 64"
  shows "outputSources (setupSources eng scene a b s) i = None"
  using assms
  by (simp add: setupSources_steps setSetting_def emit_def
      afterOutputs_fields afterInputs_fields)

lemma outputSources_setupSources_zero:
  "outputSources (setupSources eng scene a b s) 0 = outputSources s 0"
  by (simp add: setupSources_steps setSetting_def emit_def
      afterOutputs_fields afterInputs_fields)

lemma outputSources_setupSources_used:
  assumes "1 \<le> i" and "i < 2 + length (availableInputs eng) + length (availableOutputs eng)"
  shows "outputSources (setupSources eng scene a b s) i \<noteq> None"
  using assms
  by (simp add: setupSources_steps setSetting_def emit_def
      afterOutputs_fields afterInputs_fields)

lemma outputSources_setupSources_one:
  "outputSources (setupSources eng scene a b s) 1 = Some scene"
  by (simp add: setupSources_steps setSetting_def emit_def afterOutputs_fields afterInputs_fields)

lemma setupSources_timer:
  "timerVideoSourceSize (setupSources eng scene a b s) = timerVideoSourceSize s"
  by (simp add: setupSources_steps setSetting_def emit_def afterOutputs_fields afterInputs_fields)

lemma setupSources_events:
  "\<exists>C. events (setupSources eng scene a b s)
         = events s @ clearEvents s @ SetOutputSource 1 (Some scene) # C"
proof -
  obtain l1 where l1: "events (afterInputs eng scene a s)
      = events (snd (getAvailableAudioInputDevices eng (afterClear scene s))) @ l1"
    unfolding afterInputs_def using addAudioSources_events by blast
  obtain l2 where l2: "events (afterOutputs eng scene a b s)
      = events (snd (getAvailableAudioOutputDevices eng (afterInputs eng scene a s))) @ l2"
    unfolding afterOutputs_def using addAudioSources_events by blast
  show ?thesis
    by (simp add: setupSources_steps setSetting_def emit_def l2 l1
        getAvailableAudioOutputDevices_fields getAvailableAudioInputDevices_fields
        afterClear_fields)
qed

subsection \<open>The scene and a whole reconfiguration\<close>

lemma andThen_Inr:
  assumes "andThen r f = (Inr y, t)"
  obtains x m where "r = (Inr x, m)" and "f x m = (Inr y, t)"
  using assms by (cases r; cases "fst r") (auto simp: andThen_def)

lemma setOBSVideoResolution_Inr:
  "setOBSVideoResolution eng res p s = (Inr u, s') \<Longrightarrow> \<exists>v. s' = emit (SetSetting ''Video'' p v) s"
  by (auto simp: setOBSVideoResolution_def setSetting_def split: option.splits)

lemma createGameCaptureSource_fields:
  "fst (createGameCaptureSource s) = nextHandle s"
  "nextHandle (snd (createGameCaptureSource s)) = nextHandle s + 1"
  "outputSources (snd (createGameCaptureSource s)) = outputSources s"
  "\<exists>v. sources (snd (createGameCaptureSource s)) (nextHandle s) = Some v
       \<and> \<not> isScene v \<and> sourceId v = ''game_capture''"
  "h \<noteq> nextHandle s \<Longrightarrow> sources (snd (createGameCaptureSource s)) h = sources s h"
  "\<exists>sets. events (snd (createGameCaptureSource s))
     = events s @ [CreateInput (nextHandle s) ''game_capture'' ''Game Capture'' [],
                   UpdateSource (nextHandle s) sets, SaveSource (nextHandle s)]"
  by (simp_all add: createGameCaptureSource_def prim_defs Let_def source_settings_def)

lemma createMonitorCaptureSource_fields:
  "fst (createMonitorCaptureSource m s) = nextHandle s"
  "nextHandle (snd (createMonitorCaptureSource m s)) = nextHandle s + 1"
  "outputSources (snd (createMonitorCaptureSource m s)) = outputSources s"
  "\<exists>v. sources (snd (createMonitorCaptureSource m s)) (nextHandle s) = Some v
       \<and> \<not> isScene v \<and> sourceId v = ''monitor_capture''"
  "h \<noteq> nextHandle s \<Longrightarrow> sources (snd (createMonitorCaptureSource m s)) h = sources s h"
  "\<exists>sets. events (snd (createMonitorCaptureSource m s))
     = events s @ [CreateInput (nextHandle s) ''monitor_capture'' ''Monitor Capture'' [],
                   UpdateSource (nextHandle s) sets, SaveSource (nextHandle s)]"
  by (simp_all add: createMonitorCaptureSource_def prim_defs Let_def source_settings_def)

lemma selectVideoSource_Inr:
  assumes "selectVideoSource eng options res s = (Inr (base, video), s')"
  shows "video = nextHandle s" and "nextHandle s' = nextHandle s + 1"
    and "outputSources s' = outputSources s"
    and "\<exists>v. sources s' (nextHandle s) = Some v \<and> \<not> isScene v
             \<and> sourceId v = obsCaptureMode options"
    and "\<exists>nm sets. events s'
           = events s @ [CreateInput (nextHandle s) (obsCaptureMode options) nm [],
                         UpdateSource (nextHandle s) sets, SaveSource (nextHandle s)]"
    and "\<forall>h. h \<noteq> nextHandle s \<longrightarrow> sources s' h = sources s h"
proof -
  consider (monitor) d where "obsCaptureMode options = ''monitor_capture''"
      "displayInfo eng (monitorIndex options - 1) = Some d"
      "video = fst (createMonitorCaptureSource (monitorIndex options - 1) s)"
      "s' = snd (createMonitorCaptureSource (monitorIndex options - 1) s)"
    | (game) "obsCaptureMode options = ''game_capture''"
      "video = fst (createGameCaptureSource s)" "s' = snd (createGameCaptureSource s)"
    using assms
    by (auto simp: selectVideoSource_def Let_def split_def split: if_splits option.splits)
  then have "video = nextHandle s \<and> nextHandle s' = nextHandle s + 1
      \<and> outputSources s' = outputSources s
      \<and> (\<exists>v. sources s' (nextHandle s) = Some v \<and> \<not> isScene v
             \<and> sourceId v = obsCaptureMode options)
      \<and> (\<exists>nm sets. events s'
           = events s @ [CreateInput (nextHandle s) (obsCaptureMode options) nm [],
                         UpdateSource (nextHandle s) sets, SaveSource (nextHandle s)])
      \<and> (\<forall>h. h \<noteq> nextHandle s \<longrightarrow> sources s' h = sources s h)"
  proof cases
    case monitor
    then show ?thesis
      using createMonitorCaptureSource_fields [where m = "monitorIndex options - 1" and s = s] by auto
  next
    case game
    then show ?thesis
      using createGameCaptureSource_fields [where s = s] by auto
  qed
  then show "video = nextHandle s" and "nextHandle s' = nextHandle s + 1"
    and "outputSources s' = outputSources s"
    and "\<exists>v. sources s' (nextHandle s) = Some v \<and> \<not> isScene v
             \<and> sourceId v = obsCaptureMode options"
    and "\<exists>nm sets. events s'
           = events s @ [CreateInput (nextHandle s) (obsCaptureMode options) nm [],
                         UpdateSource (nextHandle s) sets, SaveSource (nextHandle s)]"
    and "\<forall>h. h \<noteq> nextHandle s \<longrightarrow> sources s' h = sources s h"
    by blast+
qed

lemma selectVideoSource_mode:
  assumes "selectVideoSource eng options res s = (Inr r, s')"
  shows "obsCaptureMode options = ''monitor_capture'' \<or> obsCaptureMode options = ''game_capture''"
  using assms by (auto simp: selectVideoSource_def split: if_splits)

lemma configureOBS_Inr:
  assumes "configureOBS eng options s = (Inr u, s')"
  shows "\<exists>A. s' = s\<lparr>events := events s @ A\<rparr>
           \<and> (\<forall>e\<in>set A. \<not> detachesOrReleases e \<and> \<not> createsSource e)"
proof -
  from assms obtain x m where
    enc: "setObsRecEncoder eng options (setSetting ''Output'' ''Mode'' (Str ''Advanced'') s) = (Inr x, m)"
    and rest: "s' = (setSetting ''Video'' ''FPSCommon'' (Number (Fin (obsFPS options)))
           \<circ> setSetting ''Output'' ''Recmax_bitrate'' (Number (Fin 300000))
           \<circ> setSetting ''Output'' ''Recbitrate'' (Number (Fin (obsKBitRate options * 1024)))
           \<circ> setSetting ''Output'' ''Recrate_control'' (Str ''VBR'')
           \<circ> setSetting ''Output'' ''RecFormat'' (Str ''mp4'')
           \<circ> setSetting ''Output'' ''RecFilePath'' (Str (bufferStorageDir options))) m"
    unfolding configureOBS_def by (elim andThen_Inr) auto
  from enc obtain v where m: "m = s\<lparr>events := events s @ [SetSetting ''Output'' ''Mode'' (Str ''Advanced''),
                                                      SetSetting ''Output'' ''RecEncoder'' v]\<rparr>"
    by (auto simp: setObsRecEncoder_def setSetting_def emit_def Let_def split: option.splits)
  show ?thesis
    unfolding rest m
    by (rule exI [where x = "[SetSetting ''Output'' ''Mode'' (Str ''Advanced''),
          SetSetting ''Output'' ''RecEncoder'' v,
          SetSetting ''Output'' ''RecFilePath'' (Str (bufferStorageDir options)),
          SetSetting ''Output'' ''RecFormat'' (Str ''mp4''),
          SetSetting ''Output'' ''Recrate_control'' (Str ''VBR''),
          SetSetting ''Output'' ''Recbitrate'' (Number (Fin (obsKBitRate options * 1024))),
          SetSetting ''Output'' ''Recmax_bitrate'' (Number (Fin 300000)),
          SetSetting ''Video'' ''FPSCommon'' (Number (Fin (obsFPS options)))]"])
       (simp add: setSetting_def emit_def)
qed

lemma setupScene_Inr:
  assumes "setupScene eng options s = (Inr scene, s')"
  shows "scene = nextHandle s + 1"
    and "nextHandle s' = nextHandle s + 2"
    and "outputSources s' = outputSources s"
    and "sources s' (nextHandle s + 1) = Some (sceneSource (nextHandle s))"
    and "\<exists>v. sources s' (nextHandle s) = Some v \<and> \<not> isScene v \<and> sourceId v = obsCaptureMode options"
    and "\<forall>h<nextHandle s. sources s' h = sources s h"
    and "\<exists>base. timerVideoSourceSize s'
           = Some \<lparr>watchedScene = nextHandle s + 1, watchedItem = 0, watchedSource = nextHandle s,
                   baseResolution = base\<rparr>"
    and "\<exists>A nm. events s' = events s @ A
           \<and> (\<forall>e\<in>set A. \<not> detachesOrReleases e \<and> \<not> createsAudioSource e)
           \<and> CreateInput (nextHandle s) (obsCaptureMode options) nm [] \<in> set A
           \<and> CreateScene (nextHandle s + 1) ''main'' \<in> set A"
proof -
  define out where "out = parseResolutionsString (obsOutputResolution options)"
  from assms obtain v1 v3 base video s2 where
    r2: "selectVideoSource eng options out (emit (SetSetting ''Video'' ''Output'' v1) s)
           = (Inr (base, video), s2)"
    and k3: "(let (scene, s4) = SceneFactory_create ''main'' (emit (SetSetting ''Video'' ''Base'' v3) s2);
                (pos, s5) = scene_add scene video s4;
                s6 = sceneItem_setScale scene pos (Fin 1, Fin 1) s5
            in (Inr scene :: error + handle, watchVideoSourceSize scene pos video base s6)) = (Inr scene, s')"
    unfolding setupScene_def out_def [symmetric]
    by (auto simp: andThen_def setOBSVideoResolution_def setSetting_def Let_def
        split: option.splits prod.splits sum.splits)
  define s1 where "s1 = emit (SetSetting ''Video'' ''Output'' v1) s"
  define s3 where "s3 = emit (SetSetting ''Video'' ''Base'' v3) s2"
  note r2 = r2 [folded s1_def] and k3 = k3 [folded s3_def]
  note s1 = s1_def and s3 = s3_def
  obtain bv where bv: "bv = (base, video)" by simp
  note sel = selectVideoSource_Inr [OF r2]
  have n1: "nextHandle s1 = nextHandle s" and o1: "outputSources s1 = outputSources s"
    and c1: "sources s1 = sources s" and e1: "events s1 = events s @ [SetSetting ''Video'' ''Output'' v1]"
    by (simp_all add: s1 emit_def)
  have vid: "video = nextHandle s" using sel(1) n1 by simp
  have n3: "nextHandle s3 = nextHandle s + 1" using sel(2) n1 by (simp add: s3 emit_def)
  have o3: "outputSources s3 = outputSources s" using sel(3) o1 by (simp add: s3 emit_def)
  obtain v where c3v: "sources s3 (nextHandle s) = Some v" and v: "\<not> isScene v"
      "sourceId v = obsCaptureMode options"
    using sel(4) n1 by (auto simp: s3 emit_def)
  have c3f: "\<forall>h. h \<noteq> nextHandle s \<longrightarrow> sources s3 h = sources s h"
    using sel(6) n1 c1 by (simp add: s3 emit_def)
  obtain nm sets where e3: "events s3 = events s @ [SetSetting ''Video'' ''Output'' v1,
        CreateInput (nextHandle s) (obsCaptureMode options) nm [],
        UpdateSource (nextHandle s) sets, SaveSource (nextHandle s),
        SetSetting ''Video'' ''Base'' v3]"
    using sel(5) n1 e1 by (auto simp: s3 emit_def)
  from k3 have sc: "scene = nextHandle s + 1"
    by (auto simp add: prim_defs Let_def split_def n3)
  from k3 have s': "s' = watchVideoSourceSize (nextHandle s + 1) 0 (nextHandle s) base
      (sceneItem_setScale (nextHandle s + 1) 0 (Fin 1, Fin 1)
        (snd (scene_add (nextHandle s + 1) (nextHandle s) (snd (SceneFactory_create ''main'' s3)))))"
    by (auto simp add: prim_defs Let_def split_def n3 vid)
  show "scene = nextHandle s + 1" by (fact sc)
  show "nextHandle s' = nextHandle s + 2"
    by (simp add: s' prim_defs Let_def n3)
  show "outputSources s' = outputSources s"
    by (simp add: s' prim_defs Let_def n3 o3)
  show "sources s' (nextHandle s + 1) = Some (sceneSource (nextHandle s))"
    by (simp add: s' prim_defs Let_def n3 sceneSource_def)
  show "\<exists>v. sources s' (nextHandle s) = Some v \<and> \<not> isScene v \<and> sourceId v = obsCaptureMode options"
    using c3v v by (simp add: s' prim_defs Let_def n3)
  show "\<forall>h<nextHandle s. sources s' h = sources s h"
    using c3f by (simp add: s' prim_defs Let_def n3)
  show "\<exists>base. timerVideoSourceSize s'
           = Some \<lparr>watchedScene = nextHandle s + 1, watchedItem = 0, watchedSource = nextHandle s,
                   baseResolution = base\<rparr>"
    by (simp add: s' prim_defs Let_def n3)
  have mode: "obsCaptureMode options = ''monitor_capture'' \<or> obsCaptureMode options = ''game_capture''"
    using selectVideoSource_mode [OF r2] .
  have ev: "events s' = events s @ [SetSetting ''Video'' ''Output'' v1,
        CreateInput (nextHandle s) (obsCaptureMode options) nm [],
        UpdateSource (nextHandle s) sets, SaveSource (nextHandle s),
        SetSetting ''Video'' ''Base'' v3, CreateScene (nextHandle s + 1) ''main'',
        SceneAdd (nextHandle s + 1) (nextHandle s), ClearInterval, SetInterval 5000]"
    by (simp add: s' prim_defs Let_def n3 e3)
  show "\<exists>A nm. events s' = events s @ A
           \<and> (\<forall>e\<in>set A. \<not> detachesOrReleases e \<and> \<not> createsAudioSource e)
           \<and> CreateInput (nextHandle s) (obsCaptureMode options) nm [] \<in> set A
           \<and> CreateScene (nextHandle s + 1) ''main'' \<in> set A"
    unfolding ev using mode
    by (intro exI [where x = "[SetSetting ''Video'' ''Output'' v1,
        CreateInput (nextHandle s) (obsCaptureMode options) nm [],
        UpdateSource (nextHandle s) sets, SaveSource (nextHandle s),
        SetSetting ''Video'' ''Base'' v3, CreateScene (nextHandle s + 1) ''main'',
        SceneAdd (nextHandle s + 1) (nextHandle s), ClearInterval, SetInterval 5000]"]
        exI [where x = nm]) auto
qed

lemma filter_eq_upt: "filter (\<lambda>i. i = k) [0..<n] = (if k < n then [k] else [])"
  by (induction n) auto

lemma filter_upt_only:
  assumes "k < n" and "\<And>i. i < n \<Longrightarrow> P i \<longleftrightarrow> i = k"
  shows "filter P [0..<n] = [k]"
proof -
  have "filter P [0..<n] = filter (\<lambda>i. i = k) [0..<n]"
    by (rule filter_cong [OF refl]) (simp add: assms(2))
  then show ?thesis using assms(1) by (simp add: filter_eq_upt)
qed

lemma filter_upt_below:
  assumes "a \<le> b" and "b \<le> c" and "\<And>i. a \<le> i \<Longrightarrow> i < c \<Longrightarrow> P i \<longleftrightarrow> i < b"
  shows "filter P [a..<c] = [a..<b]"
proof -
  have sp: "[a..<c] = [a..<b] @ [b..<c]"
    using assms(1,2) by (metis le_Suc_ex upt_add_eq_append)
  have "filter P [a..<c] = filter (\<lambda>i. i < b) [a..<c]"
    by (rule filter_cong [OF refl]) (simp add: assms(3))
  also have "\<dots> = [a..<b]"
    unfolding sp by (simp add: filter_empty_conv)
  finally show ?thesis .
qed

lemma reconfigure_Inr:
  assumes "reconfigure eng options s = (Inr u, s')"
  obtains s2 A nm where
    "s' = setupSources eng (nextHandle s + 1) (audioInputDeviceId options) (audioOutputDeviceId options) s2"
    and "nextHandle s2 = nextHandle s + 2"
    and "outputSources s2 = outputSources s"
    and "sources s2 (nextHandle s + 1) = Some (sceneSource (nextHandle s))"
    and "events s2 = events s @ A"
    and "\<forall>e\<in>set A. \<not> detachesOrReleases e \<and> \<not> createsAudioSource e"
    and "CreateInput (nextHandle s) (obsCaptureMode options) nm [] \<in> set A"
    and "CreateScene (nextHandle s + 1) ''main'' \<in> set A"
proof -
  from assms obtain u1 s1 scene s2 where
    c: "configureOBS eng options (s\<lparr>lastVideoSourceSize := None\<rparr>) = (Inr u1, s1)"
    and sc: "setupScene eng options s1 = (Inr scene, s2)"
    and s': "s' = setupSources eng scene (audioInputDeviceId options) (audioOutputDeviceId options) s2"
    by (auto simp: reconfigure_def andThen_def split: prod.splits sum.splits)
  from configureOBS_Inr [OF c] obtain A1 where
    s1: "s1 = s\<lparr>lastVideoSourceSize := None, events := events s @ A1\<rparr>"
    and A1: "\<forall>e\<in>set A1. \<not> detachesOrReleases e \<and> \<not> createsSource e"
    by auto
  have n1: "nextHandle s1 = nextHandle s" and o1: "outputSources s1 = outputSources s"
    and e1: "events s1 = events s @ A1"
    by (simp_all add: s1)
  note f = setupScene_Inr [OF sc, unfolded n1 o1 e1]
  from f(8) obtain A2 nm where e2: "events s2 = (events s @ A1) @ A2"
    and A2: "\<forall>e\<in>set A2. \<not> detachesOrReleases e \<and> \<not> createsAudioSource e"
    and cv: "CreateInput (nextHandle s) (obsCaptureMode options) nm [] \<in> set A2"
    and cs: "CreateScene (nextHandle s + 1) ''main'' \<in> set A2"
    by blast
  have A1': "\<forall>e\<in>set A1. \<not> createsAudioSource e"
  proof
    fix e assume "e \<in> set A1"
    with A1 have "\<not> createsSource e" by blast
    then show "\<not> createsAudioSource e" by (cases e) auto
  qed
  show thesis
  proof (rule that [of s2 "A1 @ A2" nm])
    show "s' = setupSources eng (nextHandle s + 1) (audioInputDeviceId options)
                 (audioOutputDeviceId options) s2"
      using s' f(1) by simp
    show "nextHandle s2 = nextHandle s + 2" by (fact f(2))
    show "outputSources s2 = outputSources s" by (fact f(3))
    show "sources s2 (nextHandle s + 1) = Some (sceneSource (nextHandle s))" by (fact f(4))
    show "events s2 = events s @ A1 @ A2" using e2 by simp
    show "\<forall>e\<in>set (A1 @ A2). \<not> detachesOrReleases e \<and> \<not> createsAudioSource e"
      using A1 A1' A2 by auto
    show "CreateInput (nextHandle s) (obsCaptureMode options) nm [] \<in> set (A1 @ A2)"
      using cv by simp
    show "CreateScene (nextHandle s + 1) ''main'' \<in> set (A1 @ A2)"
      using cs by simp
  qed
qed

lemma reconfigure_channels:
  assumes r: "reconfigure eng options s = (Inr u, s')"
    and fit: "length (availableInputs eng) + length (availableOutputs eng) \<le> 62"
    and zero: "outputSources s 0 = None"
  shows "sceneChannels s' = [1]"
    and "attachedVideoSources s' = [nextHandle s]"
    and "audioTracks s' = [2..<2 + length (availableInputs eng) + length (availableOutputs eng)]"
    and "occupiedChannels s' = [1..<2 + length (availableInputs eng) + length (availableOutputs eng)]"
    and "outputSources s' 0 = None"
proof -
  define ni where "ni = length (availableInputs eng)"
  define no where "no = length (availableOutputs eng)"
  from reconfigure_Inr [OF r] obtain s2 where
    s': "s' = setupSources eng (nextHandle s + 1) (audioInputDeviceId options)
               (audioOutputDeviceId options) s2"
    and n2: "nextHandle s2 = nextHandle s + 2"
    and o2: "outputSources s2 = outputSources s"
    and c2: "sources s2 (nextHandle s + 1) = Some (sceneSource (nextHandle s))"
    by metis
  have t1: "trackSource s' 1 = Some (sceneSource (nextHandle s))"
    unfolding s' using trackSource_setupSources_scene [of "nextHandle s + 1" s2] n2 c2 by simp
  have z: "outputSources s' 0 = None"
    unfolding s' by (simp add: outputSources_setupSources_zero o2 zero)
  have t0: "trackSource s' 0 = None"
    using z by (simp add: trackSource_def)
  have audio: "\<exists>src. trackSource s' i = Some src \<and> \<not> isScene src" if "2 \<le> i" "i < 2 + ni + no" for i
    unfolding s' using trackSource_setupSources_cases that unfolding ni_def no_def by simp
  have free: "outputSources s' i = None" if "2 + ni + no \<le> i" "i < 64" for i
    unfolding s' using outputSources_setupSources_free that unfolding ni_def no_def by simp
  have used: "outputSources s' i \<noteq> None" if "1 \<le> i" "i < 2 + ni + no" for i
    unfolding s' using outputSources_setupSources_used that unfolding ni_def no_def by simp
  have P: "(case trackSource s' i of None \<Rightarrow> False | Some src \<Rightarrow> isScene src) \<longleftrightarrow> i = 1"
    if "i < 64" for i
  proof -
    consider "i = 0" | "i = 1" | "2 \<le> i" "i < 2 + ni + no" | "2 + ni + no \<le> i"
      by linarith
    then show ?thesis
    proof cases
      case 1 then show ?thesis using t0 by simp
    next
      case 2 then show ?thesis using t1 by (simp add: sceneSource_def)
    next
      case 3
      from audio [OF 3] 3(1) show ?thesis by auto
    next
      case 4
      with free [OF 4 that] show ?thesis by (simp add: trackSource_def)
    qed
  qed
  show sc: "sceneChannels s' = [1]"
    unfolding sceneChannels_def allChannels_def
    by (rule filter_upt_only) (simp_all add: P)
  have t1': "trackSource s' (Suc 0) = Some (sceneSource (nextHandle s))"
    using t1 by simp
  show "attachedVideoSources s' = [nextHandle s]"
    by (simp add: attachedVideoSources_def sc t1' sceneSource_def)
  have fit': "2 + ni + no \<le> 64" using fit by (simp add: ni_def no_def)
  show "audioTracks s' = [2..<2 + length (availableInputs eng) + length (availableOutputs eng)]"
    unfolding audioTracks_def audioChannels_def ni_def [symmetric] no_def [symmetric]
  proof (rule filter_upt_below)
    show "2 \<le> 2 + ni + no" by simp
    show "2 + ni + no \<le> 64" by (fact fit')
    fix i :: nat assume "2 \<le> i" "i < 64"
    then show "(outputSources s' i \<noteq> None) = (i < 2 + ni + no)"
      using used [of i] free [of i] by (cases "i < 2 + ni + no") auto
  qed
  have "filter (\<lambda>i. outputSources s' i \<noteq> None) [0..<64]
          = filter (\<lambda>i. outputSources s' i \<noteq> None) ([0..<1] @ [1..<64])"
    by (simp del: upt_rec_numeral add: upt_add_eq_append [of 0 1 63, simplified])
  also have "\<dots> = filter (\<lambda>i. outputSources s' i \<noteq> None) [1..<64]"
    using z by simp
  also have "\<dots> = [1..<2 + ni + no]"
  proof (rule filter_upt_below)
    show "1 \<le> 2 + ni + no" by simp
    show "2 + ni + no \<le> 64" by (fact fit')
    fix i :: nat assume "1 \<le> i" "i < 64"
    then show "(outputSources s' i \<noteq> None) = (i < 2 + ni + no)"
      using used [of i] free [of i] by (cases "i < 2 + ni + no") auto
  qed
  finally show "occupiedChannels s' = [1..<2 + length (availableInputs eng) + length (availableOutputs eng)]"
    by (simp add: occupiedChannels_def allChannels_def ni_def no_def)
  show "outputSources s' 0 = None" by (fact z)
qed

lemma reconfigure_events:
  assumes "reconfigure eng options s = (Inr u, s')"
  shows "\<exists>A C nm. events s' = events s @ A @ clearEvents s
                       @ SetOutputSource 1 (Some (nextHandle s + 1)) # C
           \<and> (\<forall>e\<in>set A. \<not> detachesOrReleases e \<and> \<not> createsAudioSource e)
           \<and> CreateInput (nextHandle s) (obsCaptureMode options) nm [] \<in> set A
           \<and> CreateScene (nextHandle s + 1) ''main'' \<in> set A"
proof -
  from reconfigure_Inr [OF assms] obtain s2 A nm where
    s': "s' = setupSources eng (nextHandle s + 1) (audioInputDeviceId options)
               (audioOutputDeviceId options) s2"
    and o2: "outputSources s2 = outputSources s"
    and e2: "events s2 = events s @ A"
    and A: "\<forall>e\<in>set A. \<not> detachesOrReleases e \<and> \<not> createsAudioSource e"
    and cv: "CreateInput (nextHandle s) (obsCaptureMode options) nm [] \<in> set A"
    and cs: "CreateScene (nextHandle s + 1) ''main'' \<in> set A"
    by metis
  from setupSources_events [of eng "nextHandle s + 1" "audioInputDeviceId options"
      "audioOutputDeviceId options" s2]
  obtain C where "events s' = events s2 @ clearEvents s2
      @ SetOutputSource 1 (Some (nextHandle s + 1)) # C"
    unfolding s' by blast
  then have "events s' = events s @ A @ clearEvents s
      @ SetOutputSource 1 (Some (nextHandle s + 1)) # C"
    using e2 clearEvents_cong [OF o2] by simp
  with A cv cs show ?thesis by blast
qed

lemma reconfigure_no_release_before_create:
  assumes "reconfigure eng options s = (Inr u, s')"
  shows "Release h \<notin> set (takeWhile (\<lambda>e. \<not> createsSource e) (drop (length (events s)) (events s')))"
proof -
  from reconfigure_events [OF assms] obtain A C nm where
    ev: "events s' = events s @ A @ clearEvents s @ SetOutputSource 1 (Some (nextHandle s + 1)) # C"
    and A: "\<forall>e\<in>set A. \<not> detachesOrReleases e \<and> \<not> createsAudioSource e"
    and cv: "CreateInput (nextHandle s) (obsCaptureMode options) nm [] \<in> set A"
    by blast
  have dr: "drop (length (events s)) (events s')
      = A @ (clearEvents s @ SetOutputSource 1 (Some (nextHandle s + 1)) # C)"
    by (simp add: ev)
  have tw: "takeWhile (\<lambda>e. \<not> createsSource e) (A @ (clearEvents s
        @ SetOutputSource 1 (Some (nextHandle s + 1)) # C)) = takeWhile (\<lambda>e. \<not> createsSource e) A"
    by (rule takeWhile_append1 [OF cv]) simp
  have "Release h \<notin> set A"
    using A by (metis detachesOrReleases.simps(2))
  then show ?thesis
    unfolding dr tw using set_takeWhileD by metis
qed

lemma reconfigure_game_capture_succeeds:
  assumes "availableValues eng ''Output'' ''Recording'' ''RecEncoder'' = Some encoders"
    and "availableValues eng ''Video'' ''Untitled'' ''Output'' = Some outs"
    and "availableValues eng ''Video'' ''Untitled'' ''Base'' = Some bases"
    and "obsCaptureMode options = ''game_capture''"
  shows "fst (reconfigure eng options s) = Inr ()"
  using assms
  by (simp add: reconfigure_def configureOBS_def setObsRecEncoder_def getObsAvailableRecEncoders_def
      getAvailableValues_def andThen_def setupScene_def setOBSVideoResolution_def
      selectVideoSource_def Let_def split_def)

lemma exampleEngine_devices:
  "availableInputs exampleEngine = [\<lparr>id = ''mic1'', name = ''Microphone''\<rparr>]"
  "availableOutputs exampleEngine = [\<lparr>id = ''spk1'', name = ''Speakers''\<rparr>]"
  by (simp_all add: availableInputs_def availableOutputs_def exampleEngine_def)

lemma example_reconfigure:
  "reconfigure exampleEngine exampleOptions s
     = (Inr (), snd (reconfigure exampleEngine exampleOptions s))"
proof -
  have "fst (reconfigure exampleEngine exampleOptions s) = Inr ()"
    by (rule reconfigure_game_capture_succeeds [where encoders = "[''x264'']"
          and outs = "[''1920x1080'', ''1280x720'']" and bases = "[''1920x1080'', ''1280x720'']"])
       (simp_all add: exampleEngine_def exampleOptions_def)
  then show ?thesis by (metis prod.collapse)
qed

lemma reconfigure_parts:
  assumes "reconfigure eng options s = (Inr u, s')"
  shows "outputSources s' 0 = outputSources s 0"
    and "outputSources s' 1 = Some (nextHandle s + 1)"
    and "\<exists>base. timerVideoSourceSize s'
           = Some \<lparr>watchedScene = nextHandle s + 1, watchedItem = 0, watchedSource = nextHandle s,
                   baseResolution = base\<rparr>"
proof -
  from assms obtain u1 s1 scene s2 where
    c: "configureOBS eng options (s\<lparr>lastVideoSourceSize := None\<rparr>) = (Inr u1, s1)"
    and sc: "setupScene eng options s1 = (Inr scene, s2)"
    and s': "s' = setupSources eng scene (audioInputDeviceId options) (audioOutputDeviceId options) s2"
    by (auto simp: reconfigure_def andThen_def split: prod.splits sum.splits)
  from configureOBS_Inr [OF c] obtain A1 where
    s1: "s1 = s\<lparr>lastVideoSourceSize := None, events := events s @ A1\<rparr>"
    by auto
  have n1: "nextHandle s1 = nextHandle s" and o1: "outputSources s1 = outputSources s"
    by (simp_all add: s1)
  note f = setupScene_Inr [OF sc, unfolded n1 o1]
  show "outputSources s' 0 = outputSources s 0"
    unfolding s' by (simp add: outputSources_setupSources_zero f(3))
  show "outputSources s' 1 = Some (nextHandle s + 1)"
    unfolding s' f(1) by (rule outputSources_setupSources_one)
  show "\<exists>base. timerVideoSourceSize s'
           = Some \<lparr>watchedScene = nextHandle s + 1, watchedItem = 0, watchedSource = nextHandle s,
                   baseResolution = base\<rparr>"
    unfolding s' setupSources_timer by (rule f(7))
qed

lemmas eval_wait = assertNextSignal_def andThen_def race_def emit_def Let_def recordingSignal_def
  initialState_def timeoutReason_def

section \<open>Start, stop and shutdown\<close>

text \<open>
  C1. \<open>stop\<close> first issues the engine's stop command and then waits for the signals
  \<open>"stopping"\<close>, \<open>"stop"\<close> and \<open>"wrote"\<close>, in this order; each wait is one \<open>shift()\<close>
  raced against a timer of its own, set to 5000 ms and naming the awaited kind. When a wait
  fails (by its timer, by a wrong category or by a wrong kind), \<open>stop\<close> ends with the error
  of that wait and makes none of the later waits: the calls of \<open>stop\<close> are the stop command
  followed by the waits up to the failing one.
\<close>

theorem stop_protocol:
  "(isl (fst (assertNextSignal ''stopping'' (emit StopRecording s))) \<longrightarrow>
      stop s = assertNextSignal ''stopping'' (emit StopRecording s)
    \<and> events (snd (stop s)) = events s @ StopRecording # waitEvents ''stopping'')
   \<and> (\<not> isl (fst (assertNextSignal ''stopping'' (emit StopRecording s)))
      \<and> isl (fst (assertNextSignal ''stop'' (snd (assertNextSignal ''stopping'' (emit StopRecording s))))) \<longrightarrow>
      stop s = assertNextSignal ''stop'' (snd (assertNextSignal ''stopping'' (emit StopRecording s)))
    \<and> events (snd (stop s)) = events s @ StopRecording # waitEvents ''stopping'' @ waitEvents ''stop'')
   \<and> (\<not> isl (fst (assertNextSignal ''stopping'' (emit StopRecording s)))
      \<and> \<not> isl (fst (assertNextSignal ''stop'' (snd (assertNextSignal ''stopping'' (emit StopRecording s))))) \<longrightarrow>
      stop s = assertNextSignal ''wrote''
                 (snd (assertNextSignal ''stop'' (snd (assertNextSignal ''stopping'' (emit StopRecording s)))))
    \<and> events (snd (stop s))
        = events s @ StopRecording # waitEvents ''stopping'' @ waitEvents ''stop'' @ waitEvents ''wrote'')"
  using stop_cases [of s] by (simp add: events_assertNextSignal emit_def)

theorem stop_protocol_witness:
  "\<not> isl (fst (assertNextSignal ''stopping''
        (emit StopRecording (initialState\<lparr>waitQueue := [recordingSignal ''stopping'', recordingSignal ''wrote'']\<rparr>))))
   \<and> isl (fst (assertNextSignal ''stop'' (snd (assertNextSignal ''stopping''
        (emit StopRecording (initialState\<lparr>waitQueue := [recordingSignal ''stopping'', recordingSignal ''wrote'']\<rparr>))))))
   \<and> fst (stop (initialState\<lparr>waitQueue := [recordingSignal ''stopping'', recordingSignal ''wrote'']\<rparr>))
       = Inl (Error ''OBS behaved unexpectedly (3)'')
   \<and> events (snd (stop (initialState\<lparr>waitQueue := [recordingSignal ''stopping'', recordingSignal ''wrote'']\<rparr>)))
       = StopRecording # waitEvents ''stopping'' @ waitEvents ''stop''
   \<and> fst (stop (initialState\<lparr>waitQueue := [recordingSignal ''stopping'', recordingSignal ''stop''],
                              pending := [(120, recordingSignal ''wrote'')]\<rparr>))
       = Inr Undefined
   \<and> events (snd (stop (initialState\<lparr>waitQueue := [recordingSignal ''stopping'', recordingSignal ''stop''],
                              pending := [(120, recordingSignal ''wrote'')]\<rparr>)))
       = StopRecording # waitEvents ''stopping'' @ waitEvents ''stop'' @ waitEvents ''wrote''"
proof -
  let ?a = "initialState\<lparr>waitQueue := [recordingSignal ''stopping'', recordingSignal ''wrote'']\<rparr>"
  let ?b = "initialState\<lparr>waitQueue := [recordingSignal ''stopping'', recordingSignal ''stop''],
                              pending := [(120, recordingSignal ''wrote'')]\<rparr>"
  have a1: "\<not> isl (fst (assertNextSignal ''stopping'' (emit StopRecording ?a)))"
    by (simp add: eval_wait)
  have a2: "isl (fst (assertNextSignal ''stop'' (snd (assertNextSignal ''stopping'' (emit StopRecording ?a)))))"
    by (simp add: eval_wait)
  have a3: "fst (assertNextSignal ''stop'' (snd (assertNextSignal ''stopping'' (emit StopRecording ?a))))
      = Inl (Error ''OBS behaved unexpectedly (3)'')"
    by (simp add: eval_wait)
  have b1: "\<not> isl (fst (assertNextSignal ''stopping'' (emit StopRecording ?b)))"
    by (simp add: eval_wait)
  have b2: "\<not> isl (fst (assertNextSignal ''stop'' (snd (assertNextSignal ''stopping'' (emit StopRecording ?b)))))"
    by (simp add: eval_wait)
  have b3: "fst (assertNextSignal ''wrote'' (snd (assertNextSignal ''stop''
      (snd (assertNextSignal ''stopping'' (emit StopRecording ?b)))))) = Inr Undefined"
    by (simp add: eval_wait)
  have ea: "events ?a = []" and eb: "events ?b = []"
    by (simp_all add: initialState_def)
  note ta = stop_protocol [of ?a, THEN conjunct2, THEN conjunct1, rule_format, OF conjI [OF a1 a2]]
  note tb = stop_protocol [of ?b, THEN conjunct2, THEN conjunct2, rule_format, OF conjI [OF b1 b2]]
  have ra: "fst (stop ?a) = Inl (Error ''OBS behaved unexpectedly (3)'')"
    using ta [THEN conjunct1] a3 by simp
  have va: "events (snd (stop ?a)) = StopRecording # waitEvents ''stopping'' @ waitEvents ''stop''"
    using ta [THEN conjunct2] ea by simp
  have rb: "fst (stop ?b) = Inr Undefined"
    using tb [THEN conjunct1] b3 by simp
  have vb: "events (snd (stop ?b))
      = StopRecording # waitEvents ''stopping'' @ waitEvents ''stop'' @ waitEvents ''wrote''"
    using tb [THEN conjunct2] eb by simp
  show ?thesis
    by (intro conjI a1 a2 ra va rb vb)
qed




text \<open>
  C9. \<open>shutdown\<close> on a session that is not initialized returns \<open>false\<close> and calls
  nothing. On an initialized session, when the engine raises nothing, it unregisters the
  signal callback, disconnects the engine host, marks the session as not initialized and
  returns \<open>true\<close>; a second \<open>shutdown\<close> then returns \<open>false\<close> and changes nothing. An
  exception raised by either engine call is raised again as an \<open>Error\<close> whose message is
  "Exception when shutting down OBS process" followed by the exception; the session then
  stays initialized.
\<close>

theorem shutdown_outcomes:
  "(\<not> obsInitialized s \<longrightarrow> shutdown eng s = (Inr False, s))
   \<and> (obsInitialized s \<and> removeCallbackThrows eng = None \<and> disconnectThrows eng = None \<longrightarrow>
        shutdown eng s
          = (Inr True, s\<lparr>obsInitialized := False, events := events s @ [RemoveCallback, Disconnect]\<rparr>)
      \<and> shutdown eng' (snd (shutdown eng s)) = (Inr False, snd (shutdown eng s)))
   \<and> (\<forall>e. obsInitialized s \<and> removeCallbackThrows eng = Some e \<longrightarrow>
        shutdown eng s
          = (Inl (Error (''Exception when shutting down OBS process'' @ e)),
             s\<lparr>events := events s @ [RemoveCallback]\<rparr>))
   \<and> (\<forall>e. obsInitialized s \<and> removeCallbackThrows eng = None \<and> disconnectThrows eng = Some e \<longrightarrow>
        shutdown eng s
          = (Inl (Error (''Exception when shutting down OBS process'' @ e)),
             s\<lparr>events := events s @ [RemoveCallback, Disconnect]\<rparr>))"
  by (simp add: shutdown_def emit_def Let_def)

theorem shutdown_outcomes_witness:
  "\<not> obsInitialized initialState
   \<and> shutdown exampleEngine initialState = (Inr False, initialState)
   \<and> obsInitialized (initialState\<lparr>obsInitialized := True\<rparr>)
   \<and> removeCallbackThrows exampleEngine = None \<and> disconnectThrows exampleEngine = None
   \<and> shutdown exampleEngine (initialState\<lparr>obsInitialized := True\<rparr>)
       = (Inr True, (initialState\<lparr>obsInitialized := True\<rparr>)
            \<lparr>obsInitialized := False,
             events := events (initialState\<lparr>obsInitialized := True\<rparr>) @ [RemoveCallback, Disconnect]\<rparr>)
   \<and> shutdown exampleEngine (snd (shutdown exampleEngine (initialState\<lparr>obsInitialized := True\<rparr>)))
       = (Inr False, snd (shutdown exampleEngine (initialState\<lparr>obsInitialized := True\<rparr>)))
   \<and> disconnectThrows (exampleEngine\<lparr>disconnectThrows := Some ''Error: pipe closed''\<rparr>)
       = Some ''Error: pipe closed''
   \<and> shutdown (exampleEngine\<lparr>disconnectThrows := Some ''Error: pipe closed''\<rparr>)
        (initialState\<lparr>obsInitialized := True\<rparr>)
       = (Inl (Error (''Exception when shutting down OBS process'' @ ''Error: pipe closed'')),
          (initialState\<lparr>obsInitialized := True\<rparr>)
            \<lparr>events := events (initialState\<lparr>obsInitialized := True\<rparr>) @ [RemoveCallback, Disconnect]\<rparr>)"
proof -
  let ?s = "initialState\<lparr>obsInitialized := True\<rparr>"
  let ?e = "exampleEngine\<lparr>disconnectThrows := Some ''Error: pipe closed''\<rparr>"
  have u: "\<not> obsInitialized initialState" by (simp add: initialState_def)
  have i: "obsInitialized ?s" by simp
  have r: "removeCallbackThrows exampleEngine = None" and d: "disconnectThrows exampleEngine = None"
    by (simp_all add: exampleEngine_def)
  have r': "removeCallbackThrows ?e = None" and d': "disconnectThrows ?e = Some ''Error: pipe closed''"
    by (simp_all add: exampleEngine_def)
  note a = shutdown_outcomes [of initialState exampleEngine, THEN conjunct1, rule_format, OF u]
  note b = shutdown_outcomes [of ?s exampleEngine exampleEngine, THEN conjunct2, THEN conjunct1,
      rule_format, OF conjI [OF i conjI [OF r d]]]
  note c = shutdown_outcomes [of ?s ?e, THEN conjunct2, THEN conjunct2, THEN conjunct2,
      rule_format, OF conjI [OF i conjI [OF r' d']]]
  show ?thesis
    by (intro conjI u a i r d b [THEN conjunct1] b [THEN conjunct2] d' c)
qed

text \<open>
  C10. \<open>start\<close> on a session that is not initialized fails with "OBS not initialised" and
  calls nothing. \<open>stop\<close> has no such check: on the same session it issues the stop command
  and waits for \<open>"stopping"\<close>, \<open>"stop"\<close> and \<open>"wrote"\<close> as on any other. It never fails
  with "OBS not initialised". When no signal is queued or reaches the first wait in time,
  it fails by the timer of that wait, having made no other. With the three signals queued
  in this order it takes the three of them from the queue, one per wait, and succeeds. In
  general it ends with the first of the three waits that fails, having made none of the
  later ones, and with the third wait when the first two succeed. What \<open>stop\<close> does is the
  same whatever the value of \<open>obsInitialized\<close>.
\<close>

theorem stop_without_initialization_check:
  "(\<not> obsInitialized s \<longrightarrow>
      start s = (Inl (Error ''OBS not initialised''), s)
    \<and> fst (stop s) \<noteq> Inl (Error ''OBS not initialised'')
    \<and> (\<exists>later. events (snd (stop s)) = events s @ StopRecording # waitEvents ''stopping'' @ later)
    \<and> (nextSignal s = None \<longrightarrow>
         fst (stop s) = Inl (Rejected ''OBS didn't signal stopping in time'')
       \<and> events (snd (stop s)) = events s @ StopRecording # waitEvents ''stopping'')
    \<and> (\<forall>queue. waitQueue s = recordingSignal ''stopping'' # recordingSignal ''stop''
                                # recordingSignal ''wrote'' # queue \<longrightarrow>
         stop s
           = (Inr Undefined,
              s\<lparr>waitQueue := queue,
                events := events s @ StopRecording # waitEvents ''stopping'' @ waitEvents ''stop''
                            @ waitEvents ''wrote''\<rparr>))
    \<and> (isl (fst (assertNextSignal ''stopping'' (emit StopRecording s))) \<longrightarrow>
         stop s = assertNextSignal ''stopping'' (emit StopRecording s)
       \<and> events (snd (stop s)) = events s @ StopRecording # waitEvents ''stopping'')
    \<and> (\<not> isl (fst (assertNextSignal ''stopping'' (emit StopRecording s)))
         \<and> isl (fst (assertNextSignal ''stop'' (snd (assertNextSignal ''stopping'' (emit StopRecording s))))) \<longrightarrow>
         stop s = assertNextSignal ''stop'' (snd (assertNextSignal ''stopping'' (emit StopRecording s)))
       \<and> events (snd (stop s)) = events s @ StopRecording # waitEvents ''stopping'' @ waitEvents ''stop'')
    \<and> (\<not> isl (fst (assertNextSignal ''stopping'' (emit StopRecording s)))
         \<and> \<not> isl (fst (assertNextSignal ''stop'' (snd (assertNextSignal ''stopping'' (emit StopRecording s))))) \<longrightarrow>
         stop s = assertNextSignal ''wrote''
                    (snd (assertNextSignal ''stop'' (snd (assertNextSignal ''stopping'' (emit StopRecording s)))))
       \<and> events (snd (stop s))
           = events s @ StopRecording # waitEvents ''stopping'' @ waitEvents ''stop'' @ waitEvents ''wrote''))
   \<and> stop (s\<lparr>obsInitialized := b\<rparr>) = (fst (stop s), (snd (stop s))\<lparr>obsInitialized := b\<rparr>)"
proof -
  let ?w1 = "assertNextSignal ''stopping'' (emit StopRecording s)"
  let ?w2 = "assertNextSignal ''stop'' (snd ?w1)"
  let ?w3 = "assertNextSignal ''wrote'' (snd ?w2)"
  have un: "start s = (Inl (Error ''OBS not initialised''), s)" if "\<not> obsInitialized s"
    using that by (simp add: start_def)
  have rej: "fst (stop s) = Inl (Rejected ''OBS didn't signal stopping in time'')
       \<and> events (snd (stop s)) = events s @ StopRecording # waitEvents ''stopping''"
    if "nextSignal s = None"
  proof -
    from nextSignal_None_rejects [OF that, of "''stopping''" StopRecording]
    have f: "fst ?w1 = Inl (Rejected ''OBS didn't signal stopping in time'')"
      by simp
    then have "stop s = ?w1"
      using stop_cases(1) [of s] by simp
    with f show ?thesis by (simp add: events_assertNextSignal emit_def)
  qed
  have q3: "stop s
           = (Inr Undefined,
              s\<lparr>waitQueue := queue,
                events := events s @ StopRecording # waitEvents ''stopping'' @ waitEvents ''stop''
                            @ waitEvents ''wrote''\<rparr>)"
    if "waitQueue s = recordingSignal ''stopping'' # recordingSignal ''stop''
                        # recordingSignal ''wrote'' # queue" for queue
    using that
    by (simp add: stop_def assertNextSignal_def andThen_def race_def emit_def Let_def
        recordingSignal_def waitEvents_def timeoutReason_def)
  have p1: "stop s = ?w1 \<and> events (snd (stop s)) = events s @ StopRecording # waitEvents ''stopping''"
    if "isl (fst ?w1)"
    using stop_cases(1) [of s] that by (simp add: events_assertNextSignal emit_def)
  have p2: "stop s = ?w2
       \<and> events (snd (stop s)) = events s @ StopRecording # waitEvents ''stopping'' @ waitEvents ''stop''"
    if "\<not> isl (fst ?w1) \<and> isl (fst ?w2)"
    using stop_cases(2) [of s] that by (simp add: events_assertNextSignal emit_def)
  have p3: "stop s = ?w3
       \<and> events (snd (stop s))
           = events s @ StopRecording # waitEvents ''stopping'' @ waitEvents ''stop'' @ waitEvents ''wrote''"
    if "\<not> isl (fst ?w1) \<and> \<not> isl (fst ?w2)"
    using stop_cases(3) [of s] that by (simp add: events_assertNextSignal emit_def)
  note kinds = stop_error_kinds [of s]
  note pre = stop_events_prefix [of s]
  note flag = stop_flag [where s = s and b = b]
  from un rej q3 p1 p2 p3 kinds pre flag show ?thesis by blast
qed

theorem stop_without_initialization_check_witness:
  "\<not> obsInitialized initialState
   \<and> nextSignal initialState = None
   \<and> start initialState = (Inl (Error ''OBS not initialised''), initialState)
   \<and> fst (stop initialState) = Inl (Rejected ''OBS didn't signal stopping in time'')
   \<and> events (snd (stop initialState)) = events initialState @ StopRecording # waitEvents ''stopping''
   \<and> \<not> obsInitialized (initialState\<lparr>waitQueue := [recordingSignal ''stopping'',
          recordingSignal ''stop'', recordingSignal ''wrote'']\<rparr>)
   \<and> stop (initialState\<lparr>waitQueue := [recordingSignal ''stopping'',
          recordingSignal ''stop'', recordingSignal ''wrote'']\<rparr>)
       = (Inr Undefined,
          (initialState\<lparr>waitQueue := [recordingSignal ''stopping'',
             recordingSignal ''stop'', recordingSignal ''wrote'']\<rparr>)
            \<lparr>waitQueue := [],
             events := events (initialState\<lparr>waitQueue := [recordingSignal ''stopping'',
                                  recordingSignal ''stop'', recordingSignal ''wrote'']\<rparr>)
                         @ StopRecording # waitEvents ''stopping'' @ waitEvents ''stop''
                         @ waitEvents ''wrote''\<rparr>)
   \<and> \<not> obsInitialized (initialState\<lparr>waitQueue := [recordingSignal ''stop'']\<rparr>)
   \<and> fst (stop (initialState\<lparr>waitQueue := [recordingSignal ''stop'']\<rparr>))
       = Inl (Error ''OBS behaved unexpectedly (3)'')
   \<and> events (snd (stop (initialState\<lparr>waitQueue := [recordingSignal ''stop'']\<rparr>)))
       = StopRecording # waitEvents ''stopping''
   \<and> \<not> obsInitialized (initialState\<lparr>waitQueue := [recordingSignal ''stopping'']\<rparr>)
   \<and> fst (stop (initialState\<lparr>waitQueue := [recordingSignal ''stopping'']\<rparr>))
       = Inl (Rejected ''OBS didn't signal stop in time'')
   \<and> events (snd (stop (initialState\<lparr>waitQueue := [recordingSignal ''stopping'']\<rparr>)))
       = StopRecording # waitEvents ''stopping'' @ waitEvents ''stop''
   \<and> \<not> obsInitialized (initialState\<lparr>pending := [(10, recordingSignal ''stopping''),
          (20, recordingSignal ''stop''), (30, recordingSignal ''wrote'')]\<rparr>)
   \<and> fst (stop (initialState\<lparr>pending := [(10, recordingSignal ''stopping''),
          (20, recordingSignal ''stop''), (30, recordingSignal ''wrote'')]\<rparr>))
       = Inr Undefined
   \<and> events (snd (stop (initialState\<lparr>pending := [(10, recordingSignal ''stopping''),
          (20, recordingSignal ''stop''), (30, recordingSignal ''wrote'')]\<rparr>)))
       = StopRecording # waitEvents ''stopping'' @ waitEvents ''stop'' @ waitEvents ''wrote''"
proof -
  let ?q = "initialState\<lparr>waitQueue := [recordingSignal ''stopping'',
          recordingSignal ''stop'', recordingSignal ''wrote'']\<rparr>"
  let ?k = "initialState\<lparr>waitQueue := [recordingSignal ''stop'']\<rparr>"
  let ?h = "initialState\<lparr>waitQueue := [recordingSignal ''stopping'']\<rparr>"
  let ?p = "initialState\<lparr>pending := [(10, recordingSignal ''stopping''),
          (20, recordingSignal ''stop''), (30, recordingSignal ''wrote'')]\<rparr>"
  have u: "\<not> obsInitialized initialState" by (simp add: initialState_def)
  have uq: "\<not> obsInitialized ?q" and uk: "\<not> obsInitialized ?k"
    and uh: "\<not> obsInitialized ?h" and up: "\<not> obsInitialized ?p"
    by (simp_all add: initialState_def)
  have n: "nextSignal initialState = None" by (simp add: nextSignal_def initialState_def)
  have wq: "waitQueue ?q = recordingSignal ''stopping'' # recordingSignal ''stop''
                             # recordingSignal ''wrote'' # []"
    by simp
  have k1: "isl (fst (assertNextSignal ''stopping'' (emit StopRecording ?k)))"
    by (simp add: eval_wait)
  have k2: "fst (assertNextSignal ''stopping'' (emit StopRecording ?k))
      = Inl (Error ''OBS behaved unexpectedly (3)'')"
    by (simp add: eval_wait)
  have h1: "\<not> isl (fst (assertNextSignal ''stopping'' (emit StopRecording ?h)))"
    by (simp add: eval_wait)
  have h2: "isl (fst (assertNextSignal ''stop'' (snd (assertNextSignal ''stopping'' (emit StopRecording ?h)))))"
    by (simp add: eval_wait)
  have h3: "fst (assertNextSignal ''stop'' (snd (assertNextSignal ''stopping'' (emit StopRecording ?h))))
      = Inl (Rejected ''OBS didn't signal stop in time'')"
    by (simp add: eval_wait)
  have p1: "\<not> isl (fst (assertNextSignal ''stopping'' (emit StopRecording ?p)))"
    by (simp add: eval_wait)
  have p2: "\<not> isl (fst (assertNextSignal ''stop'' (snd (assertNextSignal ''stopping'' (emit StopRecording ?p)))))"
    by (simp add: eval_wait)
  have p3: "fst (assertNextSignal ''wrote'' (snd (assertNextSignal ''stop''
      (snd (assertNextSignal ''stopping'' (emit StopRecording ?p)))))) = Inr Undefined"
    by (simp add: eval_wait)
  have ek: "events ?k = []" and eh: "events ?h = []" and ep: "events ?p = []"
    by (simp_all add: initialState_def)
  note t = stop_without_initialization_check [of initialState, THEN conjunct1, rule_format, OF u]
  note t4 = t [THEN conjunct2, THEN conjunct2, THEN conjunct2, THEN conjunct1, rule_format, OF n]
  note tq = stop_without_initialization_check [of ?q, THEN conjunct1, rule_format, OF uq,
      THEN conjunct2, THEN conjunct2, THEN conjunct2, THEN conjunct2, THEN conjunct1,
      rule_format, OF wq]
  note tk = stop_without_initialization_check [of ?k, THEN conjunct1, rule_format, OF uk,
      THEN conjunct2, THEN conjunct2, THEN conjunct2, THEN conjunct2, THEN conjunct2,
      THEN conjunct1, rule_format, OF k1]
  note th = stop_without_initialization_check [of ?h, THEN conjunct1, rule_format, OF uh,
      THEN conjunct2, THEN conjunct2, THEN conjunct2, THEN conjunct2, THEN conjunct2,
      THEN conjunct2, THEN conjunct1, rule_format, OF conjI [OF h1 h2]]
  note tp = stop_without_initialization_check [of ?p, THEN conjunct1, rule_format, OF up,
      THEN conjunct2, THEN conjunct2, THEN conjunct2, THEN conjunct2, THEN conjunct2,
      THEN conjunct2, THEN conjunct2, rule_format, OF conjI [OF p1 p2]]
  have rk: "fst (stop ?k) = Inl (Error ''OBS behaved unexpectedly (3)'')"
    using tk [THEN conjunct1] k2 by simp
  have vk: "events (snd (stop ?k)) = StopRecording # waitEvents ''stopping''"
    using tk [THEN conjunct2] ek by simp
  have rh: "fst (stop ?h) = Inl (Rejected ''OBS didn't signal stop in time'')"
    using th [THEN conjunct1] h3 by simp
  have vh: "events (snd (stop ?h)) = StopRecording # waitEvents ''stopping'' @ waitEvents ''stop''"
    using th [THEN conjunct2] eh by simp
  have rp: "fst (stop ?p) = Inr Undefined"
    using tp [THEN conjunct1] p3 by simp
  have vp: "events (snd (stop ?p))
      = StopRecording # waitEvents ''stopping'' @ waitEvents ''stop'' @ waitEvents ''wrote''"
    using tp [THEN conjunct2] ep by simp
  show ?thesis
    by (intro conjI u n t [THEN conjunct1] t4 [THEN conjunct1] t4 [THEN conjunct2]
        uq tq uk rk vk uh rh vh up rp vp)
qed

section \<open>Audio tracks and reconfiguration\<close>

text \<open>
  C6. For every device that \<open>setupSources\<close> gives a track (the input devices other than
  \<open>default\<close> on the channels from 2 on, then the output devices), the source on that
  channel is bound to the device and its mute flag is
  \<open>selection = "none" or (selection \<noteq> "all" and device.id \<noteq> selection)\<close>, with the input
  selection for input devices and the output selection for output devices. Hence with
  \<open>"all"\<close> every such track is unmuted, with \<open>"none"\<close> every such track is muted, and with
  any other selection a track is unmuted exactly if its device has the selected id.
\<close>

theorem setupSources_muted:
  "(\<forall>k<length (availableInputs eng).
      \<exists>src. trackSource (setupSources eng scene inputSelection outputSelection s) (2 + k) = Some src
        \<and> sourceId src = ''wasapi_input_capture''
        \<and> settings src = [(''device_id'', Str (id (availableInputs eng ! k)))]
        \<and> muted src = (inputSelection = ''none''
                        \<or> (inputSelection \<noteq> ''all'' \<and> id (availableInputs eng ! k) \<noteq> inputSelection))
        \<and> (inputSelection = ''all'' \<longrightarrow> \<not> muted src)
        \<and> (inputSelection = ''none'' \<longrightarrow> muted src)
        \<and> (inputSelection \<noteq> ''all'' \<and> inputSelection \<noteq> ''none'' \<longrightarrow>
             (\<not> muted src \<longleftrightarrow> id (availableInputs eng ! k) = inputSelection)))
   \<and> (\<forall>k<length (availableOutputs eng).
      \<exists>src. trackSource (setupSources eng scene inputSelection outputSelection s)
               (2 + length (availableInputs eng) + k) = Some src
        \<and> sourceId src = ''wasapi_output_capture''
        \<and> settings src = [(''device_id'', Str (id (availableOutputs eng ! k)))]
        \<and> muted src = (outputSelection = ''none''
                        \<or> (outputSelection \<noteq> ''all'' \<and> id (availableOutputs eng ! k) \<noteq> outputSelection))
        \<and> (outputSelection = ''all'' \<longrightarrow> \<not> muted src)
        \<and> (outputSelection = ''none'' \<longrightarrow> muted src)
        \<and> (outputSelection \<noteq> ''all'' \<and> outputSelection \<noteq> ''none'' \<longrightarrow>
             (\<not> muted src \<longleftrightarrow> id (availableOutputs eng ! k) = outputSelection)))"
proof (intro conjI allI impI)
  fix k assume "k < length (availableInputs eng)"
  from trackSource_setupSources_input [OF this, of scene inputSelection outputSelection s]
  show "\<exists>src. trackSource (setupSources eng scene inputSelection outputSelection s) (2 + k) = Some src
        \<and> sourceId src = ''wasapi_input_capture''
        \<and> settings src = [(''device_id'', Str (id (availableInputs eng ! k)))]
        \<and> muted src = (inputSelection = ''none''
                        \<or> (inputSelection \<noteq> ''all'' \<and> id (availableInputs eng ! k) \<noteq> inputSelection))
        \<and> (inputSelection = ''all'' \<longrightarrow> \<not> muted src)
        \<and> (inputSelection = ''none'' \<longrightarrow> muted src)
        \<and> (inputSelection \<noteq> ''all'' \<and> inputSelection \<noteq> ''none'' \<longrightarrow>
             (\<not> muted src \<longleftrightarrow> id (availableInputs eng ! k) = inputSelection))"
    by (simp add: audioSource_simps mutedFor_def)
next
  fix k assume "k < length (availableOutputs eng)"
  from trackSource_setupSources_output [OF this, of scene inputSelection outputSelection s]
  show "\<exists>src. trackSource (setupSources eng scene inputSelection outputSelection s)
               (2 + length (availableInputs eng) + k) = Some src
        \<and> sourceId src = ''wasapi_output_capture''
        \<and> settings src = [(''device_id'', Str (id (availableOutputs eng ! k)))]
        \<and> muted src = (outputSelection = ''none''
                        \<or> (outputSelection \<noteq> ''all'' \<and> id (availableOutputs eng ! k) \<noteq> outputSelection))
        \<and> (outputSelection = ''all'' \<longrightarrow> \<not> muted src)
        \<and> (outputSelection = ''none'' \<longrightarrow> muted src)
        \<and> (outputSelection \<noteq> ''all'' \<and> outputSelection \<noteq> ''none'' \<longrightarrow>
             (\<not> muted src \<longleftrightarrow> id (availableOutputs eng ! k) = outputSelection))"
    by (simp add: audioSource_simps mutedFor_def)
qed

theorem setupSources_muted_witness:
  "0 < length (availableInputs exampleEngine)
   \<and> (\<exists>src. trackSource (setupSources exampleEngine 1 ''all'' ''none'' initialState) (2 + 0) = Some src
         \<and> settings src = [(''device_id'', Str ''mic1'')] \<and> \<not> muted src)
   \<and> 0 < length (availableOutputs exampleEngine)
   \<and> (\<exists>src. trackSource (setupSources exampleEngine 1 ''all'' ''none'' initialState)
                (2 + length (availableInputs exampleEngine) + 0) = Some src
         \<and> settings src = [(''device_id'', Str ''spk1'')] \<and> muted src)"
proof -
  have i: "0 < length (availableInputs exampleEngine)"
    and o: "0 < length (availableOutputs exampleEngine)"
    by (simp_all add: exampleEngine_devices)
  note t = setupSources_muted [of exampleEngine 1 "''all''" "''none''" initialState]
  from t [THEN conjunct1, rule_format, OF i]
  have a: "\<exists>src. trackSource (setupSources exampleEngine 1 ''all'' ''none'' initialState) (2 + 0) = Some src
         \<and> settings src = [(''device_id'', Str ''mic1'')] \<and> \<not> muted src"
    by (auto simp: exampleEngine_devices)
  from t [THEN conjunct2, rule_format, OF o]
  have b: "\<exists>src. trackSource (setupSources exampleEngine 1 ''all'' ''none'' initialState)
                (2 + length (availableInputs exampleEngine) + 0) = Some src
         \<and> settings src = [(''device_id'', Str ''spk1'')] \<and> muted src"
    by (auto simp: exampleEngine_devices)
  show ?thesis by (intro conjI i a o b)
qed

text \<open>
  C7, as amended. After two successful calls of \<open>reconfigure\<close> in succession (the second
  with at most 62 audio devices, channel 0 being free before the first), exactly one
  channel, channel 1, holds a scene; that scene holds exactly one video source, the one the
  second call created, and the size watcher is bound to it. The audio tracks are the
  channels from 2 to \<open>1 + inputCount + outputCount\<close> of the second call's devices: there are
  \<open>inputCount + outputCount\<close> of them, not the sum over both calls, and with the scene
  \<open>1 + inputCount + outputCount\<close> channels are occupied.
\<close>

theorem reconfigure_twice:
  assumes "reconfigure eng1 options1 s0 = (Inr u1, s1)"
    and "reconfigure eng2 options2 s1 = (Inr u2, s2)"
    and "outputSources s0 0 = None"
    and "length (availableInputs eng2) + length (availableOutputs eng2) \<le> 62"
  shows "sceneChannels s2 = [1]
       \<and> attachedVideoSources s2 = [nextHandle s1]
       \<and> (\<exists>base. timerVideoSourceSize s2
             = Some \<lparr>watchedScene = nextHandle s1 + 1, watchedItem = 0, watchedSource = nextHandle s1,
                     baseResolution = base\<rparr>)
       \<and> audioTracks s2 = [2..<2 + length (availableInputs eng2) + length (availableOutputs eng2)]
       \<and> length (audioTracks s2) = length (availableInputs eng2) + length (availableOutputs eng2)
       \<and> occupiedChannels s2 = [1..<2 + length (availableInputs eng2) + length (availableOutputs eng2)]"
proof -
  have z: "outputSources s1 0 = None"
    using reconfigure_parts(1) [OF assms(1)] assms(3) by simp
  note c = reconfigure_channels [OF assms(2) assms(4) z]
  have "length (audioTracks s2)
          = 2 + length (availableInputs eng2) + length (availableOutputs eng2) - 2"
    unfolding c(3) by (simp only: length_upt)
  then have l: "length (audioTracks s2) = length (availableInputs eng2) + length (availableOutputs eng2)"
    by arith
  show ?thesis
    by (intro conjI c(1) c(2) reconfigure_parts(3) [OF assms(2)] c(3) l c(4))
qed

theorem reconfigure_twice_witness:
  "reconfigure exampleEngine exampleOptions initialState
     = (Inr (), snd (reconfigure exampleEngine exampleOptions initialState))
   \<and> reconfigure exampleEngine exampleOptions (snd (reconfigure exampleEngine exampleOptions initialState))
     = (Inr (), snd (reconfigure exampleEngine exampleOptions
                      (snd (reconfigure exampleEngine exampleOptions initialState))))
   \<and> outputSources initialState 0 = None
   \<and> length (availableInputs exampleEngine) + length (availableOutputs exampleEngine) \<le> 62
   \<and> sceneChannels (snd (reconfigure exampleEngine exampleOptions
                      (snd (reconfigure exampleEngine exampleOptions initialState)))) = [1]
   \<and> audioTracks (snd (reconfigure exampleEngine exampleOptions
                      (snd (reconfigure exampleEngine exampleOptions initialState)))) = [2, 3]"
proof -
  let ?s1 = "snd (reconfigure exampleEngine exampleOptions initialState)"
  let ?s2 = "snd (reconfigure exampleEngine exampleOptions ?s1)"
  have r1: "reconfigure exampleEngine exampleOptions initialState = (Inr (), ?s1)"
    by (rule example_reconfigure)
  have r2: "reconfigure exampleEngine exampleOptions ?s1 = (Inr (), ?s2)"
    by (rule example_reconfigure)
  have z: "outputSources initialState 0 = None" by (simp add: initialState_def)
  have f: "length (availableInputs exampleEngine) + length (availableOutputs exampleEngine) \<le> 62"
    by (simp add: exampleEngine_devices)
  note t = reconfigure_twice [OF r1 r2 z f]
  have a: "sceneChannels ?s2 = [1]" using t by simp
  have "audioTracks ?s2 = [2..<4]"
    using t by (simp add: exampleEngine_devices)
  also have "[2..<4] = [2, 3::nat]" by (simp add: upt_rec)
  finally have b: "audioTracks ?s2 = [2, 3]" .
  show ?thesis by (intro conjI r1 r2 z f a b)
qed

text \<open>
  C7 as stated fails in its count: with one input and one output device in both calls,
  two audio tracks (channels 2 and 3) exist after the second call and three channels are
  occupied in all, not \<open>2 + 1 + 1 = 4\<close>.
\<close>

theorem reconfigure_twice_track_count_counterexample:
  "fst (reconfigure exampleEngine exampleOptions initialState) = Inr ()
   \<and> fst (reconfigure exampleEngine exampleOptions
            (snd (reconfigure exampleEngine exampleOptions initialState))) = Inr ()
   \<and> length (availableInputs exampleEngine) = 1
   \<and> length (availableOutputs exampleEngine) = 1
   \<and> audioTracks (snd (reconfigure exampleEngine exampleOptions
                      (snd (reconfigure exampleEngine exampleOptions initialState)))) = [2, 3]
   \<and> occupiedChannels (snd (reconfigure exampleEngine exampleOptions
                      (snd (reconfigure exampleEngine exampleOptions initialState)))) = [1, 2, 3]
   \<and> length (audioTracks (snd (reconfigure exampleEngine exampleOptions
                      (snd (reconfigure exampleEngine exampleOptions initialState)))))
       \<noteq> 2 + length (availableInputs exampleEngine) + length (availableOutputs exampleEngine)"
proof -
  let ?s1 = "snd (reconfigure exampleEngine exampleOptions initialState)"
  let ?s2 = "snd (reconfigure exampleEngine exampleOptions ?s1)"
  have r1: "reconfigure exampleEngine exampleOptions initialState = (Inr (), ?s1)"
    by (rule example_reconfigure)
  have r2: "reconfigure exampleEngine exampleOptions ?s1 = (Inr (), ?s2)"
    by (rule example_reconfigure)
  have z0: "outputSources initialState 0 = None" by (simp add: initialState_def)
  have f: "length (availableInputs exampleEngine) + length (availableOutputs exampleEngine) \<le> 62"
    by (simp add: exampleEngine_devices)
  have z1: "outputSources ?s1 0 = None"
    using reconfigure_channels(5) [OF r1 f z0] .
  have "audioTracks ?s2 = [2..<4]"
    using reconfigure_channels(3) [OF r2 f z1] by (simp add: exampleEngine_devices)
  also have "[2..<4] = [2, 3::nat]" by (simp add: upt_rec)
  finally have a: "audioTracks ?s2 = [2, 3]" .
  have "occupiedChannels ?s2 = [1..<4]"
    using reconfigure_channels(4) [OF r2 f z1] by (simp add: exampleEngine_devices)
  also have "[1..<4] = [1, 2, 3::nat]" by (simp add: upt_rec)
  finally have b: "occupiedChannels ?s2 = [1, 2, 3]" .
  have i: "length (availableInputs exampleEngine) = 1" and o: "length (availableOutputs exampleEngine) = 1"
    by (simp_all add: exampleEngine_devices)
  have n: "length (audioTracks ?s2)
       \<noteq> 2 + length (availableInputs exampleEngine) + length (availableOutputs exampleEngine)"
    by (simp add: a i o)
  have e1: "fst (reconfigure exampleEngine exampleOptions initialState) = Inr ()"
    by (subst r1) simp
  have e2: "fst (reconfigure exampleEngine exampleOptions ?s1) = Inr ()"
    by (subst r2) simp
  show ?thesis by (intro conjI e1 e2 i o a b n)
qed

text \<open>
  C8, as amended. The calls of a successful \<open>reconfigure\<close> come in three parts. First the
  settings are written and the new video source and the new scene are created; nothing is
  detached, released or removed in this part, and no audio source is created. Then
  \<open>clearSources\<close> detaches, releases and removes the source of every occupied channel from
  1 to 63 (the old scene and the old audio tracks), creating nothing. Only then is the new
  scene attached to channel 1 and are the new audio sources created and attached. So old
  and new audio tracks never exist side by side, while the old scene is released only
  after the new video source and scene exist.
\<close>

theorem reconfigure_release_order:
  assumes "reconfigure eng options s = (Inr u, s')"
  shows "\<exists>A C nm. events s' = events s @ A @ clearEvents s
                       @ SetOutputSource 1 (Some (nextHandle s + 1)) # C
           \<and> (\<forall>e\<in>set A. \<not> detachesOrReleases e \<and> \<not> createsAudioSource e)
           \<and> CreateInput (nextHandle s) (obsCaptureMode options) nm [] \<in> set A
           \<and> CreateScene (nextHandle s + 1) ''main'' \<in> set A
           \<and> (\<forall>e\<in>set (clearEvents s). \<not> createsSource e)
           \<and> (\<forall>i h. 1 \<le> i \<and> i < 64 \<and> outputSources s i = Some h \<longrightarrow>
                 SetOutputSource i None \<in> set (clearEvents s)
               \<and> Release h \<in> set (clearEvents s) \<and> Remove h \<in> set (clearEvents s))"
  using reconfigure_events [OF assms] clearEvents_no_create [of s] clearEvents_releases [of _ s]
  by blast

theorem reconfigure_release_order_witness:
  "reconfigure exampleEngine exampleOptions (snd (reconfigure exampleEngine exampleOptions initialState))
     = (Inr (), snd (reconfigure exampleEngine exampleOptions
                      (snd (reconfigure exampleEngine exampleOptions initialState))))
   \<and> outputSources (snd (reconfigure exampleEngine exampleOptions initialState)) 1 = Some 1
   \<and> Release 1 \<in> set (clearEvents (snd (reconfigure exampleEngine exampleOptions initialState)))
   \<and> (\<exists>A C. events (snd (reconfigure exampleEngine exampleOptions
                      (snd (reconfigure exampleEngine exampleOptions initialState))))
         = events (snd (reconfigure exampleEngine exampleOptions initialState)) @ A
             @ clearEvents (snd (reconfigure exampleEngine exampleOptions initialState))
             @ SetOutputSource 1 (Some (nextHandle (snd (reconfigure exampleEngine exampleOptions initialState)) + 1)) # C
         \<and> CreateScene (nextHandle (snd (reconfigure exampleEngine exampleOptions initialState)) + 1) ''main''
             \<in> set A)"
proof -
  let ?s1 = "snd (reconfigure exampleEngine exampleOptions initialState)"
  let ?s2 = "snd (reconfigure exampleEngine exampleOptions ?s1)"
  have r1: "reconfigure exampleEngine exampleOptions initialState = (Inr (), ?s1)"
    by (rule example_reconfigure)
  have r2: "reconfigure exampleEngine exampleOptions ?s1 = (Inr (), ?s2)"
    by (rule example_reconfigure)
  have o: "outputSources ?s1 1 = Some 1"
    using reconfigure_parts(2) [OF r1] by (simp add: initialState_def)
  from reconfigure_release_order [OF r2] obtain A C nm where
    ev: "events ?s2 = events ?s1 @ A @ clearEvents ?s1 @ SetOutputSource 1 (Some (nextHandle ?s1 + 1)) # C"
    and cs: "CreateScene (nextHandle ?s1 + 1) ''main'' \<in> set A"
    and rel: "\<forall>i h. 1 \<le> i \<and> i < 64 \<and> outputSources ?s1 i = Some h \<longrightarrow>
                 SetOutputSource i None \<in> set (clearEvents ?s1)
               \<and> Release h \<in> set (clearEvents ?s1) \<and> Remove h \<in> set (clearEvents ?s1)"
    by blast
  from rel [rule_format, of 1 1] o have re: "Release 1 \<in> set (clearEvents ?s1)" by simp
  from ev cs have ex: "\<exists>A C. events ?s2 = events ?s1 @ A @ clearEvents ?s1
        @ SetOutputSource 1 (Some (nextHandle ?s1 + 1)) # C
      \<and> CreateScene (nextHandle ?s1 + 1) ''main'' \<in> set A"
    by blast
  show ?thesis by (intro conjI r2 o re ex)
qed

text \<open>
  C8 as stated fails: in a second \<open>reconfigure\<close> the scene of the first one (handle 1, on
  channel 1) is not released before a source is created; its release comes later in the
  call, after the new video source and scene have been created.
\<close>

theorem reconfigure_release_counterexample:
  "fst (reconfigure exampleEngine exampleOptions initialState) = Inr ()
   \<and> CreateScene 1 ''main'' \<in> set (events (snd (reconfigure exampleEngine exampleOptions initialState)))
   \<and> outputSources (snd (reconfigure exampleEngine exampleOptions initialState)) 1 = Some 1
   \<and> fst (reconfigure exampleEngine exampleOptions
            (snd (reconfigure exampleEngine exampleOptions initialState))) = Inr ()
   \<and> \<not> releasedBeforeAnyCreate [1]
         (drop (length (events (snd (reconfigure exampleEngine exampleOptions initialState))))
            (events (snd (reconfigure exampleEngine exampleOptions
                           (snd (reconfigure exampleEngine exampleOptions initialState))))))
   \<and> Release 1 \<in> set
         (drop (length (events (snd (reconfigure exampleEngine exampleOptions initialState))))
            (events (snd (reconfigure exampleEngine exampleOptions
                           (snd (reconfigure exampleEngine exampleOptions initialState))))))"
proof -
  let ?s1 = "snd (reconfigure exampleEngine exampleOptions initialState)"
  let ?s2 = "snd (reconfigure exampleEngine exampleOptions ?s1)"
  have r1: "reconfigure exampleEngine exampleOptions initialState = (Inr (), ?s1)"
    by (rule example_reconfigure)
  have r2: "reconfigure exampleEngine exampleOptions ?s1 = (Inr (), ?s2)"
    by (rule example_reconfigure)
  have e1: "fst (reconfigure exampleEngine exampleOptions initialState) = Inr ()"
    by (subst r1) simp
  have e2: "fst (reconfigure exampleEngine exampleOptions ?s1) = Inr ()"
    by (subst r2) simp
  have o: "outputSources ?s1 1 = Some 1"
    using reconfigure_parts(2) [OF r1] by (simp add: initialState_def)
  from reconfigure_events [OF r1] have c: "CreateScene 1 ''main'' \<in> set (events ?s1)"
    by (auto simp: initialState_def)
  have n: "\<not> releasedBeforeAnyCreate [1] (drop (length (events ?s1)) (events ?s2))"
    using reconfigure_no_release_before_create [OF r2, of 1]
    by (simp add: releasedBeforeAnyCreate_def)
  from reconfigure_events [OF r2] obtain A C where
    ev: "events ?s2 = events ?s1 @ A @ clearEvents ?s1 @ SetOutputSource 1 (Some (nextHandle ?s1 + 1)) # C"
    by blast
  have "Release 1 \<in> set (clearEvents ?s1)"
    using clearEvents_releases(2) [of 1 ?s1 1] o by simp
  then have l: "Release 1 \<in> set (drop (length (events ?s1)) (events ?s2))"
    by (simp add: ev)
  show ?thesis by (intro conjI e1 c o e2 n l)
qed

end
